theory Spec2Isabelle
  imports Complex_Main "HOL-Library.Sublist"
begin

section \<open>Domain data model\<close>

text \<open>
  The enumerations of the domain model. The source writes the members in lower case
  (\<^verbatim>\<open>'low' | 'mid' | 'high'\<close>, \<^verbatim>\<open>'body' | 'closeup'\<close>, \<^verbatim>\<open>'base' | 'alt' | 'flourish'\<close>);
  they are capitalised here so that they cannot be confused with variables.
\<close>

datatype EnergyLevel = Low | Mid | High

datatype FrameType = Body | Closeup

datatype SheetRole = Base | Alt | Flourish

datatype SubjectCategory = CHARACTER | TEXT | SYMBOL

text \<open>
  Image payloads. The bytes a canvas encodes cannot be computed in HOL, so the result of
  \<^verbatim>\<open>canvas.toDataURL('image/jpeg', q)\<close> is kept symbolically: the drawing that was made on
  the canvas, the canvas size, and the quality \<open>q\<close>.
  \<^item> \<open>Str s\<close> is a string that came from outside (the remote service, the user);
  \<^item> \<open>CropJpeg img sx sy sw sh cw ch q\<close> is the encoding of a \<open>cw \<times> ch\<close> canvas after
    \<^verbatim>\<open>drawImage(img, sx, sy, sw, sh, 0, 0, cw, ch)\<close>;
  \<^item> \<open>FlipJpeg img w h q\<close> is the encoding of a \<open>w \<times> h\<close> canvas after
    \<^verbatim>\<open>translate(w, 0); scale(-1, 1); drawImage(img, 0, 0)\<close>.
  JavaScript numbers are modelled as reals: rounding of the floating-point operations is
  not represented.
\<close>

datatype dataurl =
    Str string
  | CropJpeg dataurl real real real real nat nat real
  | FlipJpeg dataurl nat nat real

record LoadFrame =
  url :: dataurl
  pose :: string
  energy :: EnergyLevel
  ftype :: FrameType

record GeneratedFrame = LoadFrame +
  role :: SheetRole

section \<open>Promises and failures\<close>

text \<open>
  An asynchronous result either resolves, rejects, or never settles. \<open>Pending\<close> is the
  promise whose \<^verbatim>\<open>resolve\<close> and \<^verbatim>\<open>reject\<close> are never called: whoever awaits it
  never continues.
\<close>

datatype failure =
    ImageLoadError
  | CanvasContextFailed
  | TransportError
  | NoContentReturned
  | NoImageData
  | BaseGenerationFailed
  | NoValidFrames

datatype 'a promise = Resolved 'a | Rejected failure | Pending

text \<open>
  \<^verbatim>\<open>Promise.all\<close>: rejects when an element rejects, otherwise stays pending when an
  element never settles, otherwise resolves with the values in the order of the array.
\<close>

fun first_rejection :: "'a promise list \<Rightarrow> failure option" where
  "first_rejection [] = None"
| "first_rejection (Rejected e # ps) = Some e"
| "first_rejection (_ # ps) = first_rejection ps"

fun resolved_values :: "'a promise list \<Rightarrow> 'a list option" where
  "resolved_values [] = Some []"
| "resolved_values (Resolved v # ps) = map_option ((#) v) (resolved_values ps)"
| "resolved_values (_ # ps) = None"

definition promise_all :: "'a promise list \<Rightarrow> 'a list promise" where
  "promise_all ps =
     (case first_rejection ps of
        Some e \<Rightarrow> Rejected e
      | None \<Rightarrow> (case resolved_values ps of Some vs \<Rightarrow> Resolved vs | None \<Rightarrow> Pending))"

section \<open>The remote service and the platform\<close>

text \<open>
  One part of a returned candidate: \<open>inlineData\<close> is \<^verbatim>\<open>part.inlineData?.data\<close>, absent
  when the part has no inline payload. A candidate is \<^verbatim>\<open>candidate.content?.parts\<close>,
  absent when there is no content. A response is its list of candidates
  (\<^verbatim>\<open>response.candidates\<close>, the empty list when the field is missing).
\<close>

record part =
  inlineData :: "string option"

type_synonym candidate = "part list option"

datatype api_result = Throws | Response "candidate list"

text \<open>
  The prompt is assembled from fixed template text and five varying pieces. The fixed text
  is not reproduced; the prompt is kept as the pieces that select and fill the templates.
\<close>

datatype choreography = CHOREOGRAPHY_PLAN | KINETIC_TYPE_PLAN | ANIMATION_PLAN

datatype variation = NO_VARIATION | VARIATION_FLOURISH | VARIATION_ALTERNATE

record prompt =
  plan :: choreography
  visual_style :: string
  motion_context :: string
  roleInstruction :: variation
  consistency :: "SheetRole option"

record request =
  model :: string
  text_part :: prompt
  image_part :: "string option"
  reference_part :: "string option"
  aspectRatio :: string

text \<open>
  What the code cannot decide by itself:
  \<^item> \<open>decode u\<close>: loading \<open>u\<close> into an \<^verbatim>\<open>Image\<close> fires \<^verbatim>\<open>onload\<close> with the given
    width and height (\<open>Some (w, h)\<close>) or fires \<^verbatim>\<open>onerror\<close> (\<open>None\<close>);
  \<^item> \<open>getContext u w h\<close>: whether \<^verbatim>\<open>getContext('2d')\<close> returns a context for the
    \<open>w \<times> h\<close> canvas that is created when the image \<open>u\<close> has loaded (every canvas of the
    service is created in the \<^verbatim>\<open>onload\<close> handler of one image);
  \<^item> \<open>generateContent r\<close>: the answer of the remote service to request \<open>r\<close>;
  \<^item> \<open>random rl i\<close>: the value \<^verbatim>\<open>Math.random()\<close> returns while frame \<open>i\<close> of the sheet of
    role \<open>rl\<close> is tagged.
\<close>

record platform =
  decode :: "dataurl \<Rightarrow> (nat \<times> nat) option"
  getContext :: "dataurl \<Rightarrow> nat \<Rightarrow> nat \<Rightarrow> bool"
  generateContent :: "request \<Rightarrow> api_result"
  random :: "SheetRole \<Rightarrow> nat \<Rightarrow> real"

section \<open>Strings\<close>

definition comma :: char where
  "comma = CHR '',''"

text \<open>\<^verbatim>\<open>s.includes(p)\<close>.\<close>

fun js_includes :: "string \<Rightarrow> string \<Rightarrow> bool" where
  "js_includes [] p = (p = [])"
| "js_includes (c # cs) p = (prefix p (c # cs) \<or> js_includes cs p)"

text \<open>\<^verbatim>\<open>s.split(',')\<close>, and \<^verbatim>\<open>xs[i]\<close> with \<open>None\<close> for \<^verbatim>\<open>undefined\<close>.\<close>

fun split_comma :: "string \<Rightarrow> string list" where
  "split_comma [] = [[]]"
| "split_comma (c # cs) =
     (if c = comma then [] # split_comma cs
      else (case split_comma cs of x # xs \<Rightarrow> (c # x) # xs | [] \<Rightarrow> [[c]]))"

definition at_index :: "'a list \<Rightarrow> nat \<Rightarrow> 'a option" where
  "at_index xs i = (if i < length xs then Some (xs ! i) else None)"

text \<open>The truth value JavaScript gives an optional string: \<^verbatim>\<open>undefined\<close> and the empty
  string are false.\<close>

definition truthy :: "string option \<Rightarrow> bool" where
  "truthy s = (case s of None \<Rightarrow> False | Some t \<Rightarrow> t \<noteq> [])"

text \<open>\<^verbatim>\<open>s.toLowerCase()\<close>, on ASCII.\<close>

definition lower_char :: "char \<Rightarrow> char" where
  "lower_char c =
     (case map_of (zip ''ABCDEFGHIJKLMNOPQRSTUVWXYZ'' ''abcdefghijklmnopqrstuvwxyz'') c of
        Some l \<Rightarrow> l
      | None \<Rightarrow> c)"

definition toLowerCase :: "string \<Rightarrow> string" where
  "toLowerCase s = map lower_char s"

text \<open>The decimal digits of a number, as a template literal prints them.\<close>

fun show_nat :: "nat \<Rightarrow> string" where
  "show_nat n =
     (if n < 10 then [''0123456789'' ! n] else show_nat (n div 10) @ [''0123456789'' ! (n mod 10)])"

declare show_nat.simps [simp del]

text \<open>\<^verbatim>\<open>s.replace(/left|right/, r)\<close>: the leftmost occurrence of \<open>left\<close> or \<open>right\<close> is
  replaced by \<open>r\<close>; a string without one is returned unchanged.\<close>

fun replace_left_right :: "string \<Rightarrow> string \<Rightarrow> string" where
  "replace_left_right [] r = []"
| "replace_left_right (c # cs) r =
     (if prefix ''left'' (c # cs) then r @ drop 4 (c # cs)
      else if prefix ''right'' (c # cs) then r @ drop 5 (c # cs)
      else c # replace_left_right cs r)"

definition role_name :: "SheetRole \<Rightarrow> string" where
  "role_name rl = (case rl of Base \<Rightarrow> ''base'' | Alt \<Rightarrow> ''alt'' | Flourish \<Rightarrow> ''flourish'')"

section \<open>Generation service\<close>

subsection \<open>Slicing and mirroring\<close>

text \<open>
  \<^verbatim>\<open>sliceSpriteSheet\<close>. The promise rejects when the image does not load
  (\<^verbatim>\<open>img.onerror = reject\<close>) and when the canvas gives no context.
\<close>

definition sliceSpriteSheet :: "platform \<Rightarrow> dataurl \<Rightarrow> nat \<Rightarrow> nat \<Rightarrow> dataurl list promise" where
  "sliceSpriteSheet env base64Image rows cols =
     (case decode env base64Image of
        None \<Rightarrow> Rejected ImageLoadError
      | Some (width, height) \<Rightarrow>
          let size = real (min width height);
              startX = (real width - size) / 2;
              startY = (real height - size) / 2;
              rawCellW = size / real cols;
              rawCellH = size / real rows;
              insetFactor = 0.08;
              insetX = rawCellW * insetFactor;
              insetY = rawCellH * insetFactor;
              drawW = rawCellW * (1 - 2 * insetFactor);
              drawH = rawCellH * (1 - 2 * insetFactor);
              canvas_width = nat \<lfloor>drawW\<rfloor>;
              canvas_height = nat \<lfloor>drawH\<rfloor>
          in if \<not> getContext env base64Image canvas_width canvas_height then Rejected CanvasContextFailed
             else Resolved
               (concat (map (\<lambda>r. map (\<lambda>c.
                  CropJpeg base64Image
                    (startX + real c * rawCellW + insetX)
                    (startY + real r * rawCellH + insetY)
                    drawW drawH canvas_width canvas_height 0.95) [0..<cols]) [0..<rows])))"

text \<open>
  \<^verbatim>\<open>mirrorFrame\<close>. The promise is resolved inside \<^verbatim>\<open>img.onload\<close> only, and the function
  installs no \<^verbatim>\<open>onerror\<close> handler: when the image does not load, nothing ever settles it.
\<close>

definition mirrorFrame :: "platform \<Rightarrow> dataurl \<Rightarrow> dataurl promise" where
  "mirrorFrame env dataUrl =
     (case decode env dataUrl of
        None \<Rightarrow> Pending
      | Some (width, height) \<Rightarrow>
          if getContext env dataUrl width height
          then Resolved (FlipJpeg dataUrl width height 0.8)
          else Resolved dataUrl)"

subsection \<open>One sheet\<close>

definition constructDynamicPrompt ::
  "SubjectCategory \<Rightarrow> SheetRole \<Rightarrow> string \<Rightarrow> string \<Rightarrow> prompt" where
  "constructDynamicPrompt category rl stylePrompt motionPrompt =
     \<lparr> plan = (if category = CHARACTER then CHOREOGRAPHY_PLAN
                else if category = TEXT then KINETIC_TYPE_PLAN
                else ANIMATION_PLAN),
       visual_style = stylePrompt,
       motion_context = motionPrompt,
       roleInstruction = (if rl = Flourish then VARIATION_FLOURISH
                          else if rl = Alt then VARIATION_ALTERNATE
                          else NO_VARIATION),
       consistency = None \<rparr>"

text \<open>The request \<^verbatim>\<open>generateSingleSheet\<close> hands to \<^verbatim>\<open>ai.models.generateContent\<close>.\<close>

definition sheetRequest ::
  "SheetRole \<Rightarrow> string \<Rightarrow> string \<Rightarrow> string \<Rightarrow> SubjectCategory \<Rightarrow> string option \<Rightarrow> request" where
  "sheetRequest rl imageBase64 stylePrompt motionPrompt category styleReferenceBase64 =
     (let systemPrompt0 = constructDynamicPrompt category rl stylePrompt motionPrompt;
          systemPrompt = (if truthy styleReferenceBase64
                          then systemPrompt0 \<lparr> consistency := Some rl \<rparr>
                          else systemPrompt0)
      in \<lparr> model = ''gemini-2.5-flash-image'',
            text_part = systemPrompt,
            image_part = at_index (split_comma imageBase64) 1,
            reference_part =
              (case styleReferenceBase64 of
                 None \<Rightarrow> None
               | Some ref \<Rightarrow>
                   if ref = [] then None
                   else if js_includes ref [comma] then at_index (split_comma ref) 1
                   else Some ref),
            aspectRatio = ''1:1'' \<rparr>)"

text \<open>
  The callback of \<^verbatim>\<open>rawFrames.map\<close>: tags frame \<open>i\<close> and, for a directional body frame
  of a character, awaits its mirror image.
\<close>

definition processFrame ::
  "platform \<Rightarrow> SheetRole \<Rightarrow> SubjectCategory \<Rightarrow> nat \<Rightarrow> dataurl \<Rightarrow> nat
     \<Rightarrow> GeneratedFrame list promise" where
  "processFrame env rl category cols frameData i =
     (let row = i div cols;
          energy_i = (if row = 0 then Low
                      else if row = 1 then Mid
                      else if row = 2 then Mid
                      else if row = 3 then High
                      else Mid);
          type_i = (if row = 3 \<and> category = CHARACTER \<and> random env rl i > 0.6
                    then Closeup else Body);
          poseName0 = role_name rl @ ''_'' @ show_nat i;
          poseName1 = (if category = CHARACTER \<and> row = 1 then poseName0 @ ''_left''
                       else poseName0);
          poseName = (if category = CHARACTER \<and> row = 2 then poseName1 @ ''_right''
                      else poseName1);
          frame = \<lparr> url = frameData, pose = poseName, energy = energy_i, ftype = type_i,
                     role = rl \<rparr>
      in if category = CHARACTER \<and> type_i = Body \<and> (row = 1 \<or> row = 2)
         then (case mirrorFrame env frameData of
                 Resolved mirrored \<Rightarrow>
                   let mirrorSuffix = (if js_includes poseName ''left'' then ''right_mirror''
                                       else ''left_mirror'')
                   in Resolved
                        [frame,
                         \<lparr> url = mirrored, pose = replace_left_right poseName mirrorSuffix,
                           energy = energy_i, ftype = type_i, role = rl \<rparr>]
               | Rejected e \<Rightarrow> Rejected e
               | Pending \<Rightarrow> Pending)
         else Resolved [frame])"

text \<open>The body of the \<^verbatim>\<open>try\<close> block, after the request \<open>req\<close> has been built.\<close>

definition sheetBody ::
  "platform \<Rightarrow> SheetRole \<Rightarrow> SubjectCategory \<Rightarrow> request
     \<Rightarrow> (GeneratedFrame list \<times> string option) promise" where
  "sheetBody env rl category req =
     (case generateContent env req of
        Throws \<Rightarrow> Rejected TransportError
      | Response candidates \<Rightarrow>
          (case candidates of
             [] \<Rightarrow> Rejected NoContentReturned
           | None # _ \<Rightarrow> Rejected NoContentReturned
           | Some parts # _ \<Rightarrow>
               (case find (\<lambda>p. truthy (inlineData p)) parts of
                  None \<Rightarrow> Rejected NoImageData
                | Some p \<Rightarrow>
                    (case inlineData p of
                       None \<Rightarrow> Rejected NoImageData
                     | Some spriteSheetBase64 \<Rightarrow>
                         (case sliceSpriteSheet env
                                 (Str (''data:image/jpeg;base64,'' @ spriteSheetBase64)) 4 4 of
                            Rejected e \<Rightarrow> Rejected e
                          | Pending \<Rightarrow> Pending
                          | Resolved rawFrames \<Rightarrow>
                              (case promise_all
                                      (map (\<lambda>(frameData, i). processFrame env rl category 4 frameData i)
                                         (zip rawFrames [0..<length rawFrames])) of
                                 Rejected e \<Rightarrow> Rejected e
                               | Pending \<Rightarrow> Pending
                               | Resolved nestedFrames \<Rightarrow>
                                   Resolved (concat nestedFrames, Some spriteSheetBase64)))))))"

text \<open>
  \<^verbatim>\<open>generateSingleSheet\<close>: the requests it issued, and its promise. The \<^verbatim>\<open>catch\<close>
  turns every rejection of the body into the empty result.
\<close>

definition generateSingleSheet ::
  "platform \<Rightarrow> SheetRole \<Rightarrow> string \<Rightarrow> string \<Rightarrow> string \<Rightarrow> SubjectCategory \<Rightarrow> string option
     \<Rightarrow> request list \<times> (GeneratedFrame list \<times> string option) promise" where
  "generateSingleSheet env rl imageBase64 stylePrompt motionPrompt category styleReferenceBase64 =
     (let req = sheetRequest rl imageBase64 stylePrompt motionPrompt category styleReferenceBase64
      in ([req],
          (case sheetBody env rl category req of
             Rejected e \<Rightarrow> Resolved ([], None)
           | Pending \<Rightarrow> Pending
           | Resolved res \<Rightarrow> Resolved res)))"

subsection \<open>The whole generation\<close>

definition resolveCategory :: "string \<Rightarrow> SubjectCategory option \<Rightarrow> SubjectCategory" where
  "resolveCategory motionPrompt explicitCategory =
     (case explicitCategory of
        Some c \<Rightarrow> c
      | None \<Rightarrow>
          let low = toLowerCase motionPrompt
          in if js_includes low ''text'' \<or> js_includes low ''font'' then TEXT
             else if js_includes low ''logo'' \<or> js_includes low ''icon'' then SYMBOL
             else CHARACTER)"

text \<open>The \<^verbatim>\<open>forEach\<close> that appends the frames of every expansion that has some.\<close>

definition appendExpansion ::
  "GeneratedFrame list \<Rightarrow> (GeneratedFrame list \<times> string option) list \<Rightarrow> GeneratedFrame list" where
  "appendExpansion allFrames results =
     foldl (\<lambda>acc res. if fst res \<noteq> [] then acc @ fst res else acc) allFrames results"

text \<open>
  \<^verbatim>\<open>generateDanceFrames\<close>. The first component is the log of requests: one inner list
  for every \<^verbatim>\<open>await\<close>, holding the requests that were issued before it and are awaited
  together by it, in the order of their issue. The second component is the promise the
  function returns.
\<close>

definition generateDanceFrames ::
  "platform \<Rightarrow> string \<Rightarrow> string \<Rightarrow> string \<Rightarrow> bool \<Rightarrow> bool \<Rightarrow> SubjectCategory option
     \<Rightarrow> request list list \<times> (GeneratedFrame list \<times> SubjectCategory) promise" where
  "generateDanceFrames env imageBase64 stylePrompt motionPrompt useTurbo superMode explicitCategory =
     (let category = resolveCategory motionPrompt explicitCategory;
          baseCall = generateSingleSheet env Base imageBase64 stylePrompt motionPrompt category None
      in case snd baseCall of
           Pending \<Rightarrow> ([fst baseCall], Pending)
         | Rejected e \<Rightarrow> ([fst baseCall], Rejected e)
         | Resolved baseResult \<Rightarrow>
             (case snd baseResult of
                None \<Rightarrow> ([fst baseCall], Rejected BaseGenerationFailed)
              | Some sheetBase64 \<Rightarrow>
                  if fst baseResult = [] \<or> sheetBase64 = []
                  then ([fst baseCall], Rejected BaseGenerationFailed)
                  else
                    let baseRef = ''data:image/jpeg;base64,'' @ sheetBase64;
                        expand = (\<lambda>rl. generateSingleSheet env rl imageBase64 stylePrompt
                                          motionPrompt category (Some baseRef));
                        expansionPromises = (if superMode then [expand Alt, expand Flourish]
                                             else if \<not> useTurbo then [expand Alt]
                                             else []);
                        finish = (\<lambda>allFrames. if allFrames = [] then Rejected NoValidFrames
                                              else Resolved (allFrames, category))
                    in if expansionPromises = [] then ([fst baseCall], finish (fst baseResult))
                       else ([fst baseCall, concat (map fst expansionPromises)],
                             (case promise_all (map snd expansionPromises) of
                                Rejected e \<Rightarrow> Rejected e
                              | Pending \<Rightarrow> Pending
                              | Resolved results \<Rightarrow>
                                  finish (appendExpansion (fst baseResult) results)))))"

subsection \<open>The older variant of the service\<close>

text \<open>
  The file \<^verbatim>\<open>services/gemini.ts\<close> holds an older \<^verbatim>\<open>generateDanceFrames\<close>: its prompt has no
  role instruction, no sheet carries a style reference, and the base sheet and, in super
  mode, the alt sheet are requested together and awaited by one \<^verbatim>\<open>Promise.all\<close>. Its
  \<^verbatim>\<open>generateSingleSheet\<close> tags and mirrors the frames as the newer one does and
  returns the frames alone. (It reports a candidate without content as missing image data
  rather than missing content; its \<^verbatim>\<open>catch\<close> turns both into the empty list.)
\<close>

definition sheetRequest_older ::
  "SheetRole \<Rightarrow> string \<Rightarrow> string \<Rightarrow> string \<Rightarrow> SubjectCategory \<Rightarrow> request" where
  "sheetRequest_older rl imageBase64 stylePrompt motionPrompt category =
     \<lparr> model = ''gemini-2.5-flash-image'',
       text_part = (constructDynamicPrompt category rl stylePrompt motionPrompt)
                     \<lparr> roleInstruction := NO_VARIATION \<rparr>,
       image_part = at_index (split_comma imageBase64) 1,
       reference_part = None,
       aspectRatio = ''1:1'' \<rparr>"

definition generateSingleSheet_older ::
  "platform \<Rightarrow> SheetRole \<Rightarrow> string \<Rightarrow> string \<Rightarrow> string \<Rightarrow> SubjectCategory
     \<Rightarrow> request list \<times> GeneratedFrame list promise" where
  "generateSingleSheet_older env rl imageBase64 stylePrompt motionPrompt category =
     (let req = sheetRequest_older rl imageBase64 stylePrompt motionPrompt category
      in ([req],
          (case sheetBody env rl category req of
             Rejected e \<Rightarrow> Resolved []
           | Pending \<Rightarrow> Pending
           | Resolved res \<Rightarrow> Resolved (fst res))))"

definition generateDanceFrames_older ::
  "platform \<Rightarrow> string \<Rightarrow> string \<Rightarrow> string \<Rightarrow> bool \<Rightarrow> bool \<Rightarrow> SubjectCategory option
     \<Rightarrow> request list list \<times> (GeneratedFrame list \<times> SubjectCategory) promise" where
  "generateDanceFrames_older env imageBase64 stylePrompt motionPrompt useTurbo superMode explicitCategory =
     (let category = resolveCategory motionPrompt explicitCategory;
          sheet = (\<lambda>rl. generateSingleSheet_older env rl imageBase64 stylePrompt motionPrompt category);
          promises = sheet Base # (if superMode then [sheet Alt] else [])
      in ([concat (map fst promises)],
          (case promise_all (map snd promises) of
             Rejected e \<Rightarrow> Rejected e
           | Pending \<Rightarrow> Pending
           | Resolved results \<Rightarrow>
               if concat results = [] then Rejected NoValidFrames
               else Resolved (concat results, category))))"

section \<open>Preview: frame pools\<close>

text \<open>The fields of the application state that the preview reads.\<close>

record AppState =
  generatedFrames :: "GeneratedFrame list"
  imagePreviewUrl :: "string option"
  audioPreviewUrl :: "string option"

text \<open>
  \<^verbatim>\<open>framesToLoad\<close>: the generated frames or, when there are none, one synthetic frame made
  of the preview image. The synthetic frame has no role; the preview reads none.
\<close>

definition framesToLoad :: "AppState \<Rightarrow> LoadFrame list" where
  "framesToLoad state =
     (if generatedFrames state \<noteq> [] then map LoadFrame.truncate (generatedFrames state)
      else (case imagePreviewUrl state of
              None \<Rightarrow> []
            | Some u \<Rightarrow> if u = [] then []
                        else [\<lparr> url = Str u, pose = ''base'', energy = Low, ftype = Body \<rparr>]))"

text \<open>
  The pools: \<open>sorted\<close> is the \<^verbatim>\<open>Record<EnergyLevel, string[]>\<close>, a list of pose names for
  each energy level.
\<close>

record framePools =
  framesByEnergy :: "EnergyLevel \<Rightarrow> string list"
  closeupFrames :: "string list"

definition pushFrame :: "framePools \<Rightarrow> LoadFrame \<Rightarrow> framePools" where
  "pushFrame acc f =
     (if ftype f = Closeup then acc \<lparr> closeupFrames := closeupFrames acc @ [pose f] \<rparr>
      else acc \<lparr> framesByEnergy :=
                  (framesByEnergy acc) (energy f := framesByEnergy acc (energy f) @ [pose f]) \<rparr>)"

definition sortFrames :: "LoadFrame list \<Rightarrow> framePools" where
  "sortFrames frames =
     (let collected = foldl pushFrame \<lparr> framesByEnergy = (\<lambda>e. []), closeupFrames = [] \<rparr> frames;
          sorted = framesByEnergy collected;
          sorted1 = (case frames of
                       [] \<Rightarrow> sorted
                     | f0 # _ \<Rightarrow> if sorted Low = [] \<and> ftype f0 = Body
                                 then sorted (Low := sorted Low @ [pose f0]) else sorted);
          sorted2 = (if sorted1 Mid = [] then sorted1 (Mid := sorted1 Low) else sorted1);
          sorted3 = (if sorted2 High = [] then sorted2 (High := sorted2 Mid) else sorted2)
      in \<lparr> framesByEnergy = sorted3, closeupFrames = closeupFrames collected \<rparr>)"

section \<open>Preview: audio engine\<close>

text \<open>
  The references and flags of the audio engine: whether \<^verbatim>\<open>audioCtxRef\<close>,
  \<^verbatim>\<open>analyserRef\<close>, \<^verbatim>\<open>audioRef\<close> and \<^verbatim>\<open>micStreamRef\<close> hold an object, and the two React
  flags.
\<close>

record audioEngine =
  audioCtxRef :: bool
  analyserRef :: bool
  audioRef :: bool
  micStreamRef :: bool
  isPlaying :: bool
  isMicActive :: bool

definition mounted :: audioEngine where
  "mounted = \<lparr> audioCtxRef = False, analyserRef = False, audioRef = False,
               micStreamRef = False, isPlaying = False, isMicActive = False \<rparr>"

text \<open>\<^verbatim>\<open>initAudioContext\<close>; \<open>None\<close> when the constructor of the audio context throws
  (\<open>ctor\<close> tells whether it succeeds).\<close>

definition initAudioContext :: "bool \<Rightarrow> audioEngine \<Rightarrow> audioEngine option" where
  "initAudioContext ctor s =
     (if audioCtxRef s then Some s
      else if ctor then Some (s \<lparr> audioCtxRef := True, analyserRef := True \<rparr>)
      else None)"

text \<open>\<^verbatim>\<open>toggleMic\<close>; \<open>granted\<close> is the answer of \<^verbatim>\<open>getUserMedia\<close>. An exception leaves the
  state as it was.\<close>

definition toggleMic :: "bool \<Rightarrow> bool \<Rightarrow> audioEngine \<Rightarrow> audioEngine" where
  "toggleMic ctor granted s =
     (case initAudioContext ctor s of
        None \<Rightarrow> s
      | Some s1 \<Rightarrow>
          if isMicActive s1 then s1 \<lparr> micStreamRef := False, isMicActive := False \<rparr>
          else if granted then s1 \<lparr> micStreamRef := True, isMicActive := True, isPlaying := True \<rparr>
          else s1)"

definition togglePlay :: "bool \<Rightarrow> string option \<Rightarrow> audioEngine \<Rightarrow> audioEngine" where
  "togglePlay ctor audioUrl s =
     (case initAudioContext ctor s of
        None \<Rightarrow> s
      | Some s1 \<Rightarrow>
          if isMicActive s1 then s1 \<lparr> isPlaying := \<not> isPlaying s1 \<rparr>
          else if truthy audioUrl
          then s1 \<lparr> audioRef := True, isPlaying := \<not> isPlaying s1 \<rparr>
          else s1 \<lparr> isPlaying := \<not> isPlaying s1 \<rparr>)"

text \<open>The effect that runs when the audio file changes.\<close>

definition audioUrlChanged :: "audioEngine \<Rightarrow> audioEngine" where
  "audioUrlChanged s = s \<lparr> audioRef := False, isPlaying := False \<rparr>"

text \<open>The states the engine can be in: it starts \<open>mounted\<close> and changes by the three
  operations only.\<close>

inductive reachable :: "audioEngine \<Rightarrow> bool" where
  start: "reachable mounted"
| mic: "reachable s \<Longrightarrow> reachable (toggleMic ctor granted s)"
| play: "reachable s \<Longrightarrow> reachable (togglePlay ctor audioUrl s)"
| url: "reachable s \<Longrightarrow> reachable (audioUrlChanged s)"

record bands =
  bass :: real
  mid :: real
  high :: real

text \<open>The remainder operator \<^verbatim>\<open>%\<close> of JavaScript: the quotient is truncated toward zero.\<close>

definition js_rem :: "real \<Rightarrow> real \<Rightarrow> real" where
  "js_rem x y =
     x - y * of_int (if 0 \<le> x / y then \<lfloor>x / y\<rfloor> else \<lceil>x / y\<rceil>)"

text \<open>\<^verbatim>\<open>dataArray.slice(a, b).reduce((a,b)=>a+b,0)\<close> on the byte spectrum.\<close>

definition sliceSum :: "nat list \<Rightarrow> nat \<Rightarrow> nat \<Rightarrow> real" where
  "sliceSum dataArray a b = real (sum_list (take (b - a) (drop a dataArray)))"

definition analyserBands :: "nat list \<Rightarrow> bands" where
  "analyserBands dataArray =
     \<lparr> bass = sliceSum dataArray 0 8 / 8 / 255,
       mid = sliceSum dataArray 15 60 / 45 / 255,
       high = sliceSum dataArray 100 200 / 100 / 255 \<rparr>"

definition fallbackClock :: "real \<Rightarrow> real \<Rightarrow> bands" where
  "fallbackClock time rnd =
     (let bpm = 124;
          beatDur = 60 / bpm;
          now = time / 1000;
          beatPos = js_rem now beatDur / beatDur
      in \<lparr> bass = (max 0 (1 - beatPos * 4)) ^ 3,
           mid = (if js_rem now (beatDur * 2) > beatDur \<and> beatPos < 0.2 then 0.6 else 0),
           high = rnd * 0.1 \<rparr>)"

text \<open>
  The audio analysis of \<^verbatim>\<open>animate\<close>: \<open>dataArray\<close> is what the analyser writes into the
  byte array, \<open>rnd\<close> the value of \<^verbatim>\<open>Math.random()\<close>.
\<close>

definition audioAnalysis :: "audioEngine \<Rightarrow> string option \<Rightarrow> real \<Rightarrow> nat list \<Rightarrow> real \<Rightarrow> bands" where
  "audioAnalysis s audioUrl time dataArray rnd =
     (if isPlaying s \<and> analyserRef s then analyserBands dataArray
      else if isPlaying s \<and> \<not> truthy audioUrl \<and> \<not> isMicActive s then fallbackClock time rnd
      else \<lparr> bass = 0, mid = 0, high = 0 \<rparr>)"

section \<open>Preview: choreography\<close>

datatype transitionMode = CUT | FLOW

datatype direction = left | right

text \<open>The refs the choreography reads and writes, and the React state \<open>brainState\<close>.\<close>

record director =
  lastSwitchTimeRef :: real
  lastBeatTimeRef :: real
  lastSnareTimeRef :: real
  beatCounterRef :: nat
  targetPoseRef :: string
  previousPoseRef :: string
  transitionStartRef :: real
  transitionDurationRef :: real
  transitionModeRef :: transitionMode
  burstModeUntilRef :: real
  lastMoveDirectionRef :: direction
  camZoomRef :: real
  camShakeXRef :: real
  camShakeYRef :: real
  camPanXRef :: real
  moireAmountRef :: real
  flashIntensityRef :: real
  intention :: string
  nextDirHint :: string
  confidence :: int
  activePoseName :: string


text \<open>
  What one tick is given: the time stamp, the three bands, the values the calls of
  \<^verbatim>\<open>Math.random()\<close> return (one field for each call site, each in \<open>[0, 1)\<close>), and the React
  state the callback closes over. The bands are real numbers here and double-precision
  floats in the browser, where the product \<^verbatim>\<open>bass * 100\<close> is rounded before \<^verbatim>\<open>Math.round\<close>
  sees it; \<open>bassPercent\<close> is the integer \<^verbatim>\<open>Math.round(bass * 100)\<close> evaluates to in the
  browser, given with the tick rather than recomputed over the reals.
\<close>

record tick =
  time :: real
  audio :: bands
  bassPercent :: int
  rndDirection :: real
  rndCloseup :: real
  rndPose :: real
  rndShakeX :: real
  rndShakeY :: real
  rndIdle :: real
  rndStutter :: real
  rndBurst :: real
  playing :: bool
  pools :: framePools
  stutterChance :: real
  superCamActive :: bool

text \<open>
  \<^verbatim>\<open>pool[Math.floor(r * pool.length)]\<close>. For \<open>r\<close> in \<open>[0, 1)\<close> the index is in range;
  outside the array JavaScript yields \<^verbatim>\<open>undefined\<close>, written here as the string it
  becomes when used as a key.
\<close>

definition pickPose :: "real \<Rightarrow> string list \<Rightarrow> string" where
  "pickPose r pool =
     (let k = \<lfloor>r * real (length pool)\<rfloor>
      in if 0 \<le> k \<and> nat k < length pool then pool ! nat k else ''undefined'')"

definition direction_name :: "direction \<Rightarrow> string" where
  "direction_name d = (case d of left \<Rightarrow> ''left'' | right \<Rightarrow> ''right'')"

text \<open>Branch A of the choreography, the standard beat hit, in the order of the source:
  the ping-pong direction, the pool, the transition, the camera impulse.\<close>

definition isHardHit :: "tick \<Rightarrow> bool" where
  "isHardHit t = (bass (audio t) > 0.8)"

definition nextDirection :: "tick \<Rightarrow> director \<Rightarrow> direction" where
  "nextDirection t d =
     (if rndDirection t < 0.3 then lastMoveDirectionRef d
      else if lastMoveDirectionRef d = left then right else left)"

definition poolSelection :: "tick \<Rightarrow> string list" where
  "poolSelection t =
     (let byEnergy = framesByEnergy (pools t)
      in if (mid (audio t) > 0.6 \<or> high (audio t) > 0.6) \<and> closeupFrames (pools t) \<noteq> []
            \<and> rndCloseup t > 0.5
         then closeupFrames (pools t)
         else if isHardHit t then (if byEnergy High \<noteq> [] then byEnergy High else byEnergy Mid)
         else (if byEnergy Mid \<noteq> [] then byEnergy Mid else byEnergy Low))"

definition finalPool :: "tick \<Rightarrow> direction \<Rightarrow> string list" where
  "finalPool t nextDir =
     (let pool = poolSelection t;
          dirPool = filter (\<lambda>p. js_includes (toLowerCase p) (direction_name nextDir)) pool
      in if dirPool \<noteq> [] then dirPool else pool)"

definition startTransition :: "tick \<Rightarrow> direction \<Rightarrow> string \<Rightarrow> director \<Rightarrow> director" where
  "startTransition t nextDir nextPose d =
     (let isPatternCut = beatCounterRef d < 2;
          mode = (if isHardHit t \<or> isPatternCut then CUT else FLOW)
      in d \<lparr> previousPoseRef := targetPoseRef d,
             targetPoseRef := nextPose,
             transitionStartRef := time t,
             lastMoveDirectionRef := nextDir,
             transitionModeRef := mode,
             transitionDurationRef := (if mode = CUT then 0 else 240),
             activePoseName := nextPose,
             intention := (if mode = CUT then ''IMPACT (CUT)'' else ''GLIDE (FLOW)''),
             confidence := bassPercent t,
             nextDirHint := (if nextDir = left then ''RIGHT'' else ''LEFT'') \<rparr>)"

definition physicsImpulse :: "tick \<Rightarrow> direction \<Rightarrow> director \<Rightarrow> director" where
  "physicsImpulse t nextDir d =
     (if superCamActive t
      then let shakeAmt = (if isHardHit t then 15 else 5);
               d1 = (if transitionModeRef d = CUT
                     then d \<lparr> camShakeXRef := (rndShakeX t - 0.5) * shakeAmt,
                              camShakeYRef := (rndShakeY t - 0.5) * shakeAmt,
                              camZoomRef := (if isHardHit t then 1.15 else 1.05) \<rparr>
                     else d \<lparr> camPanXRef := camPanXRef d + (if nextDir = left then - 20 else 20) \<rparr>)
           in if isHardHit t then d1 \<lparr> flashIntensityRef := 0.8 \<rparr> else d1
      else d)"

definition beatHit :: "tick \<Rightarrow> director \<Rightarrow> director" where
  "beatHit t d =
     (let now = time t;
          d1 = d \<lparr> lastBeatTimeRef := now, lastSwitchTimeRef := now,
                   beatCounterRef := (beatCounterRef d + 1) mod 4 \<rparr>;
          nextDir = nextDirection t d1;
          nextPose = pickPose (rndPose t) (finalPool t nextDir);
          d2 = (if finalPool t nextDir \<noteq> [] \<and> targetPoseRef d1 \<noteq> nextPose
                then startTransition t nextDir nextPose d1 else d1)
      in physicsImpulse t nextDir d2)"

text \<open>Branch B: the idle fallback.\<close>

definition idleFallback :: "tick \<Rightarrow> director \<Rightarrow> director" where
  "idleFallback t d =
     (let now = time t;
          d1 = d \<lparr> lastSwitchTimeRef := now \<rparr>;
          pool = framesByEnergy (pools t) Low;
          nextPose = pickPose (rndIdle t) pool
      in if pool \<noteq> [] \<and> targetPoseRef d1 \<noteq> nextPose
         then d1 \<lparr> previousPoseRef := targetPoseRef d1,
                   targetPoseRef := nextPose,
                   transitionStartRef := now,
                   transitionModeRef := FLOW,
                   transitionDurationRef := 800 \<rparr>
         else d1)"

text \<open>Branch C: the snare.\<close>

definition snareLogic :: "tick \<Rightarrow> director \<Rightarrow> director" where
  "snareLogic t d =
     (let now = time t;
          d1 = d \<lparr> lastSnareTimeRef := now, moireAmountRef := 1.2 \<rparr>
      in if rndStutter t * 100 < stutterChance t then d1 \<lparr> burstModeUntilRef := now + 400 \<rparr>
         else d1)"

text \<open>The forced cut of burst mode.\<close>

definition burstCut :: "tick \<Rightarrow> director \<Rightarrow> director" where
  "burstCut t d =
     (let now = time t;
          d1 = d \<lparr> lastSwitchTimeRef := now \<rparr>;
          byEnergy = framesByEnergy (pools t);
          pool = (if byEnergy High \<noteq> [] then byEnergy High else byEnergy Mid)
      in if pool \<noteq> []
         then d1 \<lparr> targetPoseRef := pickPose (rndBurst t) pool,
                   previousPoseRef := pickPose (rndBurst t) pool,
                   transitionModeRef := CUT,
                   transitionDurationRef := 0 \<rparr>
         else d1)"

text \<open>The pose-lock window of a tick and the gate it opens.\<close>

definition isBurst :: "tick \<Rightarrow> director \<Rightarrow> bool" where
  "isBurst t d = (time t < burstModeUntilRef d)"

definition poseLockTime :: "tick \<Rightarrow> director \<Rightarrow> real" where
  "poseLockTime t d = (if isBurst t d then 60 else 150)"

definition canSwitch :: "tick \<Rightarrow> director \<Rightarrow> bool" where
  "canSwitch t d = (time t - lastSwitchTimeRef d > poseLockTime t d)"

text \<open>
  Section 2 of \<^verbatim>\<open>animate\<close>. \<open>isBurst\<close>, \<open>canSwitch\<close> and \<open>isBeatHit\<close> are computed once,
  from the state \<open>d0\<close> the tick starts in, before any branch runs. The three statements
  of the \<^verbatim>\<open>if (isPlaying)\<close> block follow each other: the beat hit or else the idle fallback,
  then the snare, then the forced cut of burst mode.
\<close>

definition isBeatHit :: "tick \<Rightarrow> director \<Rightarrow> bool" where
  "isBeatHit t d0 = (bass (audio t) > 0.35 \<and> canSwitch t d0)"

definition isIdle :: "tick \<Rightarrow> director \<Rightarrow> bool" where
  "isIdle t d0 = (time t - lastBeatTimeRef d0 > 1500 \<and> canSwitch t d0
                  \<and> time t - lastSwitchTimeRef d0 > 1000)"

definition beatOrIdle :: "tick \<Rightarrow> director \<Rightarrow> director" where
  "beatOrIdle t d0 =
     (if isBeatHit t d0 then beatHit t d0
      else if isIdle t d0 then idleFallback t d0
      else d0)"

definition snare :: "tick \<Rightarrow> director \<Rightarrow> director" where
  "snare t d =
     (if mid (audio t) > 0.6 \<and> time t - lastSnareTimeRef d > 800 then snareLogic t d else d)"

definition burst :: "tick \<Rightarrow> director \<Rightarrow> director \<Rightarrow> director" where
  "burst t d0 d = (if isBurst t d0 \<and> canSwitch t d0 then burstCut t d else d)"

definition choreography :: "tick \<Rightarrow> director \<Rightarrow> director" where
  "choreography t d0 =
     (if \<not> playing t then d0 else burst t d0 (snare t (beatOrIdle t d0)))"









section \<open>Preview: rendering\<close>

text \<open>A loaded \<^verbatim>\<open>HTMLImageElement\<close>.\<close>

record bitmap =
  src :: dataurl
  width :: nat
  height :: nat

text \<open>
  The pose map \<^verbatim>\<open>poseImagesRef.current\<close> after the frames were loaded: a frame whose image
  fires \<^verbatim>\<open>onerror\<close> leaves no entry. The loads are taken to complete in the order of the
  list.
\<close>

definition loadPoseImages :: "platform \<Rightarrow> LoadFrame list \<Rightarrow> (string \<rightharpoonup> bitmap)" where
  "loadPoseImages env frames =
     foldl (\<lambda>newMap f.
              case decode env (url f) of
                None \<Rightarrow> newMap
              | Some (w, h) \<Rightarrow> newMap (pose f \<mapsto> \<lparr> src = url f, width = w, height = h \<rparr>))
           Map.empty frames"

text \<open>The camera and effect refs that \<^verbatim>\<open>renderFrame\<close> reads, and the size of the canvas.\<close>

record camera =
  camShakeX :: real
  camShakeY :: real
  camPanX :: real
  camPanY :: real
  camZoom :: real
  moireAmount :: real
  tearAmount :: real
  flashIntensity :: real
  rectWidth :: real
  rectHeight :: real
  superCam :: bool

text \<open>
  What \<^verbatim>\<open>renderFrame\<close> puts on the canvas, as the list of its drawing calls:
  \<open>DrawImage img op alpha x y w h\<close> draws \<open>img\<close> with composite operation \<open>op\<close> and global
  alpha \<open>alpha\<close>, the origin translated to \<open>(x, y)\<close>, at size \<open>w \<times> h\<close> before zoom;
  \<open>DrawSlice img i shift x y w h\<close> is slice \<open>i\<close> of the torn image;
  \<open>FillRect colour op alpha\<close> fills the rectangle of the image.
\<close>

datatype drawing =
    DrawImage bitmap string real real real real real
  | DrawScanlines bitmap real real real real real
  | DrawSlice bitmap nat real real real real real
  | FillRect string string real

definition drawPasses :: "camera \<Rightarrow> (nat \<Rightarrow> real) \<Rightarrow> bitmap \<Rightarrow> real \<Rightarrow> real \<Rightarrow> drawing list" where
  "drawPasses cam shifts img opacity offsetX =
     (let cx = rectWidth cam / 2 + camShakeX cam + camPanX cam + offsetX;
          cy = rectHeight cam / 2 + camShakeY cam + camPanY cam;
          aspect = real (width img) / real (height img);
          dw0 = rectWidth cam;
          dh0 = dw0 / aspect;
          dh = (if dh0 > rectHeight cam then rectHeight cam else dh0);
          dw = (if dh0 > rectHeight cam then dh * aspect else dw0);
          pass1 = (if superCam cam \<and> moireAmount cam > 0.05
                   then [DrawImage img ''screen'' (0.8 * moireAmount cam * opacity)
                           (cx - 5 * moireAmount cam) cy dw dh,
                         FillRect ''#ff0000'' ''source-in'' (0.8 * moireAmount cam * opacity),
                         DrawImage img ''screen'' (0.8 * moireAmount cam * opacity)
                           (cx + 5 * moireAmount cam) cy dw dh,
                         FillRect ''#0000ff'' ''source-in'' (0.8 * moireAmount cam * opacity),
                         DrawScanlines img opacity cx cy dw dh]
                   else []);
          pass2 = (if tearAmount cam > 0.1
                   then map (\<lambda>i. DrawSlice img i ((shifts i - 0.5) * 40 * tearAmount cam)
                                     cx cy dw dh) [0..<8]
                   else [DrawImage img ''source-over'' opacity cx cy dw dh]);
          pass3 = (if superCam cam \<and> flashIntensity cam > 0.05
                   then FillRect ''#ffeebb'' ''overlay'' (flashIntensity cam * opacity)
                        # (if flashIntensity cam > 0.5
                           then [DrawImage img ''lighter'' ((flashIntensity cam - 0.5) * opacity)
                                   cx cy dw dh]
                           else [])
                   else [])
      in pass1 @ pass2 @ pass3)"

text \<open>
  \<^verbatim>\<open>renderFrame\<close>: the bitmap is \<^verbatim>\<open>poseImagesRef.current[pose] || poseImagesRef.current['base']\<close>,
  and nothing is drawn when that is undefined. \<open>shifts i\<close> is the value of
  \<^verbatim>\<open>Math.random()\<close> the tear effect draws for slice \<open>i\<close>.
\<close>

definition renderFrame ::
  "camera \<Rightarrow> (nat \<Rightarrow> real) \<Rightarrow> (string \<rightharpoonup> bitmap) \<Rightarrow> string \<Rightarrow> real \<Rightarrow> real \<Rightarrow> drawing list" where
  "renderFrame cam shifts poseImages p opacity offsetX =
     (if opacity \<le> 0.01 then []
      else (case (case poseImages p of Some img \<Rightarrow> Some img | None \<Rightarrow> poseImages ''base'') of
              None \<Rightarrow> []
            | Some img \<Rightarrow> drawPasses cam shifts img opacity offsetX))"

section \<open>Concrete platforms\<close>

fun browser_decode :: "(string \<Rightarrow> (nat \<times> nat) option) \<Rightarrow> dataurl \<Rightarrow> (nat \<times> nat) option" where
  "browser_decode images (Str s) = images s"
| "browser_decode images (CropJpeg _ _ _ _ _ cw ch _) =
     (if cw = 0 \<or> ch = 0 then None else Some (cw, ch))"
| "browser_decode images (FlipJpeg _ w h _) = (if w = 0 \<or> h = 0 then None else Some (w, h))"

definition studio :: platform where
  "studio =
     \<lparr> decode = browser_decode
                  (\<lambda>s. if s = ''data:image/jpeg;base64,QUJD'' then Some (1024, 1000) else None),
       getContext = (\<lambda>u w h. True),
       generateContent = (\<lambda>r. Response [Some [\<lparr>inlineData = None\<rparr>, \<lparr>inlineData = Some ''QUJD''\<rparr>]]),
       random = (\<lambda>rl i. 1 / 2) \<rparr>"


definition offline :: platform where
  "offline = studio \<lparr> generateContent := (\<lambda>r. Throws) \<rparr>"

definition headless :: platform where
  "headless = studio \<lparr> getContext := (\<lambda>u w h. False) \<rparr>"

definition tiny_alt :: platform where
  "tiny_alt =
     \<lparr> decode = browser_decode
                  (\<lambda>s. if s = ''data:image/jpeg;base64,QUJD'' then Some (1024, 1024)
                       else if s = ''data:image/jpeg;base64,VElOWQ'' then Some (4, 4)
                       else None),
       getContext = (\<lambda>u w h. True),
       generateContent =
         (\<lambda>r. case reference_part r of
                None \<Rightarrow> Response [Some [\<lparr>inlineData = Some ''QUJD''\<rparr>]]
              | Some ref \<Rightarrow> Response [Some [\<lparr>inlineData = Some ''VElOWQ''\<rparr>]]),
       random = (\<lambda>rl i. 1 / 2) \<rparr>"


text \<open>A browser whose canvases give a 2D context for a sheet but none for a single
  frame, and one in which the image of the pose \<open>base_4_left\<close> fails to load.\<close>

definition no_mirror_context :: platform where
  "no_mirror_context =
     studio \<lparr> getContext := (\<lambda>u w h. case u of Str _ \<Rightarrow> True | _ \<Rightarrow> False) \<rparr>"

definition flaky :: platform where
  "flaky =
     studio \<lparr> decode :=
       (\<lambda>u. if u = CropJpeg (Str ''data:image/jpeg;base64,QUJD'') 32 270 210 210 210 210 0.95
            then None else decode studio u) \<rparr>"

section \<open>Concrete inputs\<close>

text \<open>The frames a settled promise of a sheet or of a generation carries, and the frames
  of a turbo generation for a character on \<open>studio\<close>, as the preview receives them.\<close>

definition resolvedFrames :: "(GeneratedFrame list \<times> 'a) promise \<Rightarrow> GeneratedFrame list" where
  "resolvedFrames p = (case p of Resolved (frames, _) \<Rightarrow> frames | _ \<Rightarrow> [])"

definition subject :: string where
  "subject = ''data:image/png;base64,SUBJ''"

definition generated :: AppState where
  "generated =
     \<lparr> generatedFrames =
         resolvedFrames (snd (generateDanceFrames studio subject ''neon'' ''dance'' True False
                                (Some CHARACTER))),
       imagePreviewUrl = Some ''data:image/jpeg;base64,QUJD'',
       audioPreviewUrl = None \<rparr>"

definition uploaded :: AppState where
  "uploaded =
     \<lparr> generatedFrames = [], imagePreviewUrl = Some ''data:image/jpeg;base64,QUJD'',
       audioPreviewUrl = None \<rparr>"

definition still :: camera where
  "still = \<lparr> camShakeX = 0, camShakeY = 0, camPanX = 0, camPanY = 0, camZoom = 1,
              moireAmount = 0, tearAmount = 0, flashIntensity = 0,
              rectWidth = 400, rectHeight = 600, superCam = True \<rparr>"

text \<open>The values \<^verbatim>\<open>Math.random()\<close> returns for the slices of the tear effect.\<close>

definition steady :: "nat \<Rightarrow> real" where
  "steady i = 1 / 2"

definition two_frames :: "LoadFrame list" where
  "two_frames =
     [\<lparr> url = Str ''data:image/jpeg;base64,QUJD'', pose = ''base'', energy = Low, ftype = Body \<rparr>,
      \<lparr> url = Str ''data:image/jpeg;base64,AAAA'', pose = ''base_12'', energy = High, ftype = Closeup \<rparr>]"



section \<open>Properties of the generation service\<close>

subsection \<open>Lists, promises and strings\<close>

lemma upt_0_4: "[0..<4] = [0, 1, 2, Suc 2]"
  by (simp add: upt_rec)

lemma floor_within_1: "0 \<le> x \<Longrightarrow> \<bar>real (nat \<lfloor>x\<rfloor>) - x\<bar> < 1"
  by (simp add: abs_if) linarith

lemma lt4_cases: "(i::nat) < 4 \<Longrightarrow> i = 0 \<or> i = 1 \<or> i = 2 \<or> i = 3"
  by arith

lemma grid_nth:
  assumes "r < 4" "c < 4"
  shows "concat (map (\<lambda>r. map (\<lambda>c. f r c) [0..<4]) [0..<4]) ! (r * 4 + c) = f r (c::nat)"
  using lt4_cases [OF assms(1)] lt4_cases [OF assms(2)]
  by (auto simp add: upt_0_4)

lemma grid_length: "length (concat (map (\<lambda>r. map (\<lambda>c. f r c) [0..<4]) [0..<(4::nat)])) = 16"
  by (simp add: upt_0_4)

lemma first_rejection_map_Resolved: "first_rejection (map Resolved vs) = None"
  by (induction vs) auto

lemma resolved_values_map_Resolved: "resolved_values (map Resolved vs) = Some vs"
  by (induction vs) auto

lemma resolved_values_Some: "resolved_values ps = Some vs \<Longrightarrow> ps = map Resolved vs"
  by (induction ps arbitrary: vs rule: resolved_values.induct) auto

lemma promise_all_Resolved_iff: "promise_all ps = Resolved vs \<longleftrightarrow> ps = map Resolved vs"
  by (auto simp add: promise_all_def first_rejection_map_Resolved resolved_values_map_Resolved
      dest: resolved_values_Some split: option.splits)

lemma first_rejection_None: "(\<forall>p\<in>set ps. \<forall>e. p \<noteq> Rejected e) \<Longrightarrow> first_rejection ps = None"
  by (induction ps rule: first_rejection.induct) auto

lemma resolved_values_Pending: "Pending \<in> set ps \<Longrightarrow> resolved_values ps = None"
  by (induction ps rule: resolved_values.induct) auto

lemma promise_all_Pending:
  assumes "\<forall>p\<in>set ps. \<forall>e. p \<noteq> Rejected e" and "Pending \<in> set ps"
  shows "promise_all ps = Pending"
  using first_rejection_None [OF assms(1)] resolved_values_Pending [OF assms(2)]
  by (simp add: promise_all_def)

lemma promise_all_no_rejection:
  assumes "\<forall>p\<in>set ps. \<forall>e. p \<noteq> Rejected e"
  shows "promise_all ps \<noteq> Rejected e"
  using first_rejection_None [OF assms]
  by (simp add: promise_all_def split: option.splits)

lemma find_holds: "find P xs = Some x \<Longrightarrow> P x"
  by (auto simp add: find_Some_iff)

lemma map_zip_Resolved_nth:
  assumes "map (\<lambda>(frameData, i). F frameData i) (zip raw [0..<length raw]) = map Resolved groups"
  shows "length groups = length raw \<and> (\<forall>i<length raw. F (raw ! i) i = Resolved (groups ! i))"
proof -
  from assms have "length (map (\<lambda>(frameData, i). F frameData i) (zip raw [0..<length raw]))
      = length (map Resolved groups)"
    by simp
  then have len: "length groups = length raw" by simp
  have "\<forall>i<length raw. F (raw ! i) i = Resolved (groups ! i)"
  proof (intro allI impI)
    fix i assume i: "i < length raw"
    have "map (\<lambda>(frameData, i). F frameData i) (zip raw [0..<length raw]) ! i = map Resolved groups ! i"
      using assms by simp
    then show "F (raw ! i) i = Resolved (groups ! i)"
      using i len by simp
  qed
  with len show ?thesis by simp
qed

lemma map_Resolved_ex:
  assumes "\<forall>x\<in>set xs. \<exists>v. F x = Resolved v \<and> v \<noteq> []"
  shows "\<exists>vs. map F xs = map Resolved vs \<and> (xs \<noteq> [] \<longrightarrow> concat vs \<noteq> [])"
  using assms
proof (induction xs)
  case Nil
  then show ?case by simp
next
  case (Cons x xs)
  then obtain v vs where "F x = Resolved v" "v \<noteq> []" "map F xs = map Resolved vs"
    by auto
  then have "map F (x # xs) = map Resolved (v # vs) \<and> concat (v # vs) \<noteq> []"
    by simp
  then show ?case by blast
qed

lemma split_comma_nonempty: "split_comma s \<noteq> []"
  by (induction s) (auto split: list.splits)

lemma split_comma_hd: "hd (split_comma s) = takeWhile (\<lambda>c. c \<noteq> comma) s"
  by (induction s) (auto split: list.splits simp: split_comma_nonempty)

lemma split_comma_append:
  "comma \<notin> set a \<Longrightarrow> split_comma (a @ comma # s) = a # split_comma s"
  by (induction a) (auto split: list.splits)

lemma js_includes_comma: "js_includes s [comma] = (comma \<in> set s)"
  by (induction s) auto

lemma reference_of_base:
  "reference_part (sheetRequest rl img st mo cat (Some (''data:image/jpeg;base64,'' @ sheet)))
     = Some (takeWhile (\<lambda>c. c \<noteq> comma) sheet)"
proof -
  have a: "''data:image/jpeg;base64,'' @ sheet = ''data:image/jpeg;base64'' @ comma # sheet"
    by (simp add: comma_def)
  have b: "comma \<notin> set ''data:image/jpeg;base64''"
    by (simp add: comma_def)
  have c: "split_comma (''data:image/jpeg;base64,'' @ sheet) = ''data:image/jpeg;base64'' # split_comma sheet"
    unfolding a by (rule split_comma_append [OF b])
  have d: "js_includes (''data:image/jpeg;base64,'' @ sheet) [comma]"
    unfolding js_includes_comma a by simp
  have e: "at_index (split_comma (''data:image/jpeg;base64,'' @ sheet)) 1 = Some (hd (split_comma sheet))"
    unfolding c using split_comma_nonempty [of sheet]
    by (cases "split_comma sheet") (simp_all add: at_index_def)
  show ?thesis
    unfolding sheetRequest_def Let_def using d e
    by (simp add: split_comma_hd del: split_comma.simps js_includes.simps)
qed

lemma reference_is_base_sheet:
  assumes "comma \<notin> set sheet"
  shows "reference_part (sheetRequest rl img st mo cat (Some (''data:image/jpeg;base64,'' @ sheet)))
           = Some sheet"
proof -
  have "takeWhile (\<lambda>c. c \<noteq> comma) sheet = sheet"
    using assms by (auto simp add: takeWhile_eq_all_conv)
  then show ?thesis by (simp only: reference_of_base)
qed

subsection \<open>Slicing\<close>

lemma sliceSpriteSheet_4_4:
  assumes "decode env img = Some (w, h)"
    and "getContext env img (nat \<lfloor>real (min w h) / 4 * (1 - 2 * 0.08)\<rfloor>)
                        (nat \<lfloor>real (min w h) / 4 * (1 - 2 * 0.08)\<rfloor>)"
  shows "sliceSpriteSheet env img 4 4 =
     Resolved (concat (map (\<lambda>r. map (\<lambda>c.
        CropJpeg img
          ((real w - real (min w h)) / 2 + real c * (real (min w h) / 4) + real (min w h) / 4 * 0.08)
          ((real h - real (min w h)) / 2 + real r * (real (min w h) / 4) + real (min w h) / 4 * 0.08)
          (real (min w h) / 4 * (1 - 2 * 0.08)) (real (min w h) / 4 * (1 - 2 * 0.08))
          (nat \<lfloor>real (min w h) / 4 * (1 - 2 * 0.08)\<rfloor>)
          (nat \<lfloor>real (min w h) / 4 * (1 - 2 * 0.08)\<rfloor>) 0.95) [0..<4]) [0..<4]))"
  using assms unfolding sliceSpriteSheet_def Let_def by simp

lemma sliceSpriteSheet_length:
  assumes "sliceSpriteSheet env img 4 4 = Resolved raw"
  shows "length raw = 16"
proof (cases "decode env img")
  case None
  then show ?thesis using assms by (simp add: sliceSpriteSheet_def)
next
  case (Some wh)
  obtain w h where wh: "wh = (w, h)" by (cases wh)
  have "\<exists>f. raw = concat (map (\<lambda>r. map (\<lambda>c. f r c) [0..<4]) [0..<(4::nat)])"
    using assms Some wh unfolding sliceSpriteSheet_def Let_def
    by (auto split: if_splits)
  then show ?thesis using grid_length by auto
qed

lemma sliceSpriteSheet_cells:
  assumes "sliceSpriteSheet env img 4 4 = Resolved raw"
  shows "\<exists>w h. decode env img = Some (w, h) \<and>
     (\<forall>i<16. raw ! i =
        CropJpeg img
          ((real w - real (min w h)) / 2 + real (i mod 4) * (real (min w h) / 4) + 0.08 * (real (min w h) / 4))
          ((real h - real (min w h)) / 2 + real (i div 4) * (real (min w h) / 4) + 0.08 * (real (min w h) / 4))
          (0.84 * (real (min w h) / 4)) (0.84 * (real (min w h) / 4))
          (nat \<lfloor>0.84 * (real (min w h) / 4)\<rfloor>) (nat \<lfloor>0.84 * (real (min w h) / 4)\<rfloor>) 0.95)"
proof (cases "decode env img")
  case None
  then show ?thesis using assms by (simp add: sliceSpriteSheet_def)
next
  case (Some wh)
  obtain w h where wh: "wh = (w, h)" by (cases wh)
  let ?cell = "real (min w h) / 4"
  let ?n = "nat \<lfloor>?cell * (1 - 2 * 0.08)\<rfloor>"
  let ?f = "\<lambda>r c. CropJpeg img
          ((real w - real (min w h)) / 2 + real c * ?cell + ?cell * 0.08)
          ((real h - real (min w h)) / 2 + real r * ?cell + ?cell * 0.08)
          (?cell * (1 - 2 * 0.08)) (?cell * (1 - 2 * 0.08)) ?n ?n 0.95"
  have dec: "decode env img = Some (w, h)" using Some wh by simp
  have ctx: "getContext env img ?n ?n"
    using assms dec unfolding sliceSpriteSheet_def Let_def by (simp split: if_splits)
  have raw: "raw = concat (map (\<lambda>r. map (\<lambda>c. ?f r c) [0..<4]) [0..<(4::nat)])"
    using sliceSpriteSheet_4_4 [OF dec ctx] assms by simp
  have "raw ! i = ?f (i div 4) (i mod 4)" if "i < 16" for i
  proof -
    have "i div 4 < 4" "i mod 4 < 4" using that by simp_all
    from grid_nth [OF this, of ?f] show ?thesis unfolding raw by simp
  qed
  then have "\<forall>i<16. raw ! i =
        CropJpeg img
          ((real w - real (min w h)) / 2 + real (i mod 4) * ?cell + 0.08 * ?cell)
          ((real h - real (min w h)) / 2 + real (i div 4) * ?cell + 0.08 * ?cell)
          (0.84 * ?cell) (0.84 * ?cell)
          (nat \<lfloor>0.84 * ?cell\<rfloor>) (nat \<lfloor>0.84 * ?cell\<rfloor>) 0.95"
    by (simp add: mult.commute)
  with dec show ?thesis by blast
qed

text \<open>
  Claim C3, as amended. For every sheet image that decodes, and for which the canvas of
  the cell size gives a drawing context, \<^verbatim>\<open>sliceSpriteSheet\<close> with four rows and four
  columns resolves with exactly 16 frames. The frame at index \<open>r \<cdot> 4 + c\<close> is the crop of
  cell \<open>(r, c)\<close> of the largest centred square, inset by 8 percent of the cell on every
  side, encoded at quality 0.95; its width and height are within one pixel of 0.84 times
  a quarter of the shorter side of the image.
\<close>

theorem sliceSpriteSheet_grid:
  assumes "decode env img = Some (w, h)"
    and "getContext env img (nat \<lfloor>real (min w h) / 4 * (1 - 2 * 0.08)\<rfloor>)
                        (nat \<lfloor>real (min w h) / 4 * (1 - 2 * 0.08)\<rfloor>)"
  shows "\<exists>frames. sliceSpriteSheet env img 4 4 = Resolved frames \<and> length frames = 16 \<and>
     (\<forall>r<4. \<forall>c<4. \<exists>cw ch.
        frames ! (r * 4 + c) =
          CropJpeg img
            ((real w - real (min w h)) / 2 + real c * (real (min w h) / 4) + 0.08 * (real (min w h) / 4))
            ((real h - real (min w h)) / 2 + real r * (real (min w h) / 4) + 0.08 * (real (min w h) / 4))
            (0.84 * (real (min w h) / 4)) (0.84 * (real (min w h) / 4)) cw ch 0.95 \<and>
        \<bar>real cw - 0.84 * (real (min w h) / 4)\<bar> < 1 \<and>
        \<bar>real ch - 0.84 * (real (min w h) / 4)\<bar> < 1)"
proof -
  let ?cell = "real (min w h) / 4"
  let ?n = "nat \<lfloor>?cell * (1 - 2 * 0.08)\<rfloor>"
  let ?f = "\<lambda>r c. CropJpeg img
          ((real w - real (min w h)) / 2 + real c * ?cell + ?cell * 0.08)
          ((real h - real (min w h)) / 2 + real r * ?cell + ?cell * 0.08)
          (?cell * (1 - 2 * 0.08)) (?cell * (1 - 2 * 0.08)) ?n ?n 0.95"
  let ?frames = "concat (map (\<lambda>r. map (\<lambda>c. ?f r c) [0..<4]) [0..<(4::nat)])"
  have res: "sliceSpriteSheet env img 4 4 = Resolved ?frames"
    by (rule sliceSpriteSheet_4_4 [OF assms])
  have len: "length ?frames = 16"
    by (rule grid_length)
  have draw: "?cell * (1 - 2 * 0.08) = 0.84 * ?cell"
    by simp
  have near: "\<bar>real ?n - 0.84 * ?cell\<bar> < 1"
    using floor_within_1 [of "?cell * (1 - 2 * 0.08)"] by simp
  have cell: "\<exists>cw ch.
        ?frames ! (r * 4 + c) =
          CropJpeg img
            ((real w - real (min w h)) / 2 + real c * ?cell + 0.08 * ?cell)
            ((real h - real (min w h)) / 2 + real r * ?cell + 0.08 * ?cell)
            (0.84 * ?cell) (0.84 * ?cell) cw ch 0.95 \<and>
        \<bar>real cw - 0.84 * ?cell\<bar> < 1 \<and> \<bar>real ch - 0.84 * ?cell\<bar> < 1"
    if "r < 4" "c < 4" for r c
  proof -
    have "?frames ! (r * 4 + c) = ?f r c"
      using that by (rule grid_nth)
    then have "?frames ! (r * 4 + c) =
          CropJpeg img
            ((real w - real (min w h)) / 2 + real c * ?cell + 0.08 * ?cell)
            ((real h - real (min w h)) / 2 + real r * ?cell + 0.08 * ?cell)
            (0.84 * ?cell) (0.84 * ?cell) ?n ?n 0.95"
      by (simp add: mult.commute)
    with near show ?thesis by blast
  qed
  from res len cell show ?thesis by blast
qed

theorem sliceSpriteSheet_grid_witness:
  "decode studio (Str ''data:image/jpeg;base64,QUJD'') = Some (1024, 1000) \<and>
   getContext studio (Str ''data:image/jpeg;base64,QUJD'') 210 210 \<and>
   (\<exists>frames. sliceSpriteSheet studio (Str ''data:image/jpeg;base64,QUJD'') 4 4 = Resolved frames \<and>
      length frames = 16 \<and>
      frames ! 6 = CropJpeg (Str ''data:image/jpeg;base64,QUJD'') 532 270 210 210 210 210 0.95)"
proof -
  have d: "decode studio (Str ''data:image/jpeg;base64,QUJD'') = Some (1024, 1000)"
    by (simp add: studio_def)
  have g: "getContext studio (Str ''data:image/jpeg;base64,QUJD'')
                             (nat \<lfloor>real (min 1024 1000) / 4 * (1 - 2 * 0.08)\<rfloor>)
                             (nat \<lfloor>real (min 1024 1000) / 4 * (1 - 2 * 0.08)\<rfloor>)"
    by (simp add: studio_def)
  from sliceSpriteSheet_grid [OF d g] obtain frames where
    r: "sliceSpriteSheet studio (Str ''data:image/jpeg;base64,QUJD'') 4 4 = Resolved frames"
    and l: "length frames = 16"
    and c: "\<forall>r<4. \<forall>c<4. \<exists>cw ch.
        frames ! (r * 4 + c) =
          CropJpeg (Str ''data:image/jpeg;base64,QUJD'')
            ((real 1024 - real (min 1024 1000)) / 2 + real c * (real (min 1024 1000) / 4)
               + 0.08 * (real (min 1024 1000) / 4))
            ((real 1000 - real (min 1024 1000)) / 2 + real r * (real (min 1024 1000) / 4)
               + 0.08 * (real (min 1024 1000) / 4))
            (0.84 * (real (min 1024 1000) / 4)) (0.84 * (real (min 1024 1000) / 4)) cw ch 0.95 \<and>
        \<bar>real cw - 0.84 * (real (min 1024 1000) / 4)\<bar> < 1 \<and>
        \<bar>real ch - 0.84 * (real (min 1024 1000) / 4)\<bar> < 1"
    by blast
  have "(1::nat) < 4" and "(2::nat) < 4" by simp_all
  from c [rule_format, OF this] obtain cw ch :: nat where
    f0: "frames ! (1 * 4 + 2) =
          CropJpeg (Str ''data:image/jpeg;base64,QUJD'')
            ((real 1024 - real (min 1024 1000)) / 2 + real 2 * (real (min 1024 1000) / 4)
               + 0.08 * (real (min 1024 1000) / 4))
            ((real 1000 - real (min 1024 1000)) / 2 + real 1 * (real (min 1024 1000) / 4)
               + 0.08 * (real (min 1024 1000) / 4))
            (0.84 * (real (min 1024 1000) / 4)) (0.84 * (real (min 1024 1000) / 4)) cw ch 0.95"
    and w0: "\<bar>real cw - 0.84 * (real (min 1024 1000) / 4)\<bar> < 1"
    and h0: "\<bar>real ch - 0.84 * (real (min 1024 1000) / 4)\<bar> < 1"
    by blast
  from f0 have f: "frames ! 6 = CropJpeg (Str ''data:image/jpeg;base64,QUJD'') 532 270 210 210 cw ch 0.95"
    by simp
  from w0 have w: "\<bar>real cw - 210\<bar> < 1" by simp
  from h0 have h: "\<bar>real ch - 210\<bar> < 1" by simp
  from w have "cw = 210" by linarith
  moreover from h have "ch = 210" by linarith
  ultimately have "frames ! 6 = CropJpeg (Str ''data:image/jpeg;base64,QUJD'') 532 270 210 210 210 210 0.95"
    using f by simp
  with d r l show ?thesis by (simp add: studio_def)
qed

text \<open>
  As stated, for every decoded sheet image, claim C3 fails: without a drawing context the
  slicer rejects.
\<close>

theorem sliceSpriteSheet_no_context:
  "decode headless (Str ''data:image/jpeg;base64,QUJD'') = Some (1024, 1000) \<and>
   sliceSpriteSheet headless (Str ''data:image/jpeg;base64,QUJD'') 4 4 = Rejected CanvasContextFailed"
  by (simp add: sliceSpriteSheet_def headless_def studio_def Let_def)

subsection \<open>Tagging and mirroring\<close>

text \<open>For a frame that loads, \<^verbatim>\<open>mirrorFrame\<close> resolves: with the flipped image at
  quality 0.8 when the canvas gives a context, with the frame itself otherwise.\<close>

lemma mirrorFrame_loaded:
  assumes "decode env u = Some (w, h)"
  shows "mirrorFrame env u =
           (if getContext env u w h then Resolved (FlipJpeg u w h 0.8) else Resolved u)"
  using assms by (simp add: mirrorFrame_def)

lemma mirrorFrame_Resolved:
  assumes "mirrorFrame env u = Resolved v"
  shows "\<exists>w h. decode env u = Some (w, h) \<and>
           v = (if getContext env u w h then FlipJpeg u w h 0.8 else u)"
proof (cases "decode env u")
  case None
  then show ?thesis using assms by (simp add: mirrorFrame_def)
next
  case (Some wh)
  obtain w h where "wh = (w, h)" by (cases wh)
  with Some have d: "decode env u = Some (w, h)" by simp
  with assms have "v = (if getContext env u w h then FlipJpeg u w h 0.8 else u)"
    by (simp add: mirrorFrame_def split: if_splits)
  with d show ?thesis by blast
qed

lemma mirrorFrame_never_rejects: "mirrorFrame env u \<noteq> Rejected e"
  by (simp add: mirrorFrame_def split: option.splits)

lemma processFrame_never_rejects: "processFrame env rl cat cols u i \<noteq> Rejected e"
  by (simp add: processFrame_def Let_def mirrorFrame_never_rejects split: promise.splits)

lemma row1_cases: "i div 4 = 1 \<Longrightarrow> i = 4 \<or> i = 5 \<or> i = 6 \<or> i = (7::nat)"
  by arith

lemma row2_cases: "i div 4 = 2 \<Longrightarrow> i = 8 \<or> i = 9 \<or> i = 10 \<or> i = (11::nat)"
  by arith

lemma show_nat_row1:
  "show_nat 4 = ''4''" "show_nat 5 = ''5''" "show_nat 6 = ''6''" "show_nat 7 = ''7''"
  by (simp_all add: show_nat.simps)

lemma show_nat_row2:
  "show_nat 8 = ''8''" "show_nat 9 = ''9''" "show_nat 10 = ''10''" "show_nat 11 = ''11''"
  by (simp_all add: show_nat.simps)

lemma mirror_pose_left:
  assumes "i div 4 = 1"
  shows "js_includes (role_name rl @ ''_'' @ show_nat i @ ''_left'') ''left'' \<and>
     replace_left_right (role_name rl @ ''_'' @ show_nat i @ ''_left'') ''right_mirror''
          = role_name rl @ ''_'' @ show_nat i @ ''_right_mirror''"
  using row1_cases [OF assms]
  apply (elim disjE)
     apply (cases rl; simp add: show_nat_row1 role_name_def)
    apply (cases rl; simp add: show_nat_row1 role_name_def)
   apply (cases rl; simp add: show_nat_row1 role_name_def)
  apply (cases rl; simp add: show_nat_row1 role_name_def)
  done

lemma mirror_pose_right:
  assumes "i div 4 = 2"
  shows "\<not> js_includes (role_name rl @ ''_'' @ show_nat i @ ''_right'') ''left'' \<and>
     replace_left_right (role_name rl @ ''_'' @ show_nat i @ ''_right'') ''left_mirror''
          = role_name rl @ ''_'' @ show_nat i @ ''_left_mirror''"
  using row2_cases [OF assms]
  apply (elim disjE)
     apply (cases rl; simp add: show_nat_row2 role_name_def)
    apply (cases rl; simp add: show_nat_row2 role_name_def)
   apply (cases rl; simp add: show_nat_row2 role_name_def)
  apply (cases rl; simp add: show_nat_row2 role_name_def)
  done

lemma processFrame_plain:
  assumes "\<not> (cat = CHARACTER \<and> (i div 4 = 1 \<or> i div 4 = 2))"
  shows "\<exists>f. processFrame env rl cat 4 u i = Resolved [f] \<and> url f = u \<and>
           pose f = role_name rl @ ''_'' @ show_nat i \<and>
           energy f = (if i div 4 = 0 then Low else if i div 4 = 3 then High else Mid) \<and>
           role f = rl"
  using assms
  by (auto simp add: processFrame_def Let_def)

lemma processFrame_left:
  assumes "i div 4 = 1" and "processFrame env rl CHARACTER 4 u i = Resolved g"
  shows "\<exists>f m mw mh. g = [f, m] \<and> url f = u \<and>
           pose f = role_name rl @ ''_'' @ show_nat i @ ''_left'' \<and>
           pose m = role_name rl @ ''_'' @ show_nat i @ ''_right_mirror'' \<and>
           energy f = Mid \<and> ftype f = Body \<and> role f = rl \<and>
           energy m = energy f \<and> ftype m = ftype f \<and> role m = role f \<and>
           decode env (url f) = Some (mw, mh) \<and>
           url m = (if getContext env (url f) mw mh then FlipJpeg (url f) mw mh 0.8 else url f)"
proof -
  obtain mirrored where m: "mirrorFrame env u = Resolved mirrored"
    using assms by (cases "mirrorFrame env u") (simp_all add: processFrame_def Let_def)
  from mirrorFrame_Resolved [OF m] obtain mw mh where
    d: "decode env u = Some (mw, mh)"
    and v: "mirrored = (if getContext env u mw mh then FlipJpeg u mw mh 0.8 else u)"
    by blast
  let ?f = "\<lparr>url = u, pose = role_name rl @ ''_'' @ show_nat i @ ''_left'', energy = Mid,
             ftype = Body, role = rl\<rparr>"
  let ?m = "\<lparr>url = mirrored, pose = role_name rl @ ''_'' @ show_nat i @ ''_right_mirror'',
             energy = Mid, ftype = Body, role = rl\<rparr>"
  have g: "g = [?f, ?m]"
    using assms m mirror_pose_left [OF assms(1), of rl]
    by (simp add: processFrame_def Let_def del: js_includes.simps replace_left_right.simps)
  show ?thesis
    apply (rule exI [of _ ?f], rule exI [of _ ?m], rule exI [of _ mw], rule exI [of _ mh])
    using g d v by simp
qed

lemma processFrame_right:
  assumes "i div 4 = 2" and "processFrame env rl CHARACTER 4 u i = Resolved g"
  shows "\<exists>f m mw mh. g = [f, m] \<and> url f = u \<and>
           pose f = role_name rl @ ''_'' @ show_nat i @ ''_right'' \<and>
           pose m = role_name rl @ ''_'' @ show_nat i @ ''_left_mirror'' \<and>
           energy f = Mid \<and> ftype f = Body \<and> role f = rl \<and>
           energy m = energy f \<and> ftype m = ftype f \<and> role m = role f \<and>
           decode env (url f) = Some (mw, mh) \<and>
           url m = (if getContext env (url f) mw mh then FlipJpeg (url f) mw mh 0.8 else url f)"
proof -
  obtain mirrored where m: "mirrorFrame env u = Resolved mirrored"
    using assms by (cases "mirrorFrame env u") (simp_all add: processFrame_def Let_def)
  from mirrorFrame_Resolved [OF m] obtain mw mh where
    d: "decode env u = Some (mw, mh)"
    and v: "mirrored = (if getContext env u mw mh then FlipJpeg u mw mh 0.8 else u)"
    by blast
  let ?f = "\<lparr>url = u, pose = role_name rl @ ''_'' @ show_nat i @ ''_right'', energy = Mid,
             ftype = Body, role = rl\<rparr>"
  let ?m = "\<lparr>url = mirrored, pose = role_name rl @ ''_'' @ show_nat i @ ''_left_mirror'',
             energy = Mid, ftype = Body, role = rl\<rparr>"
  have g: "g = [?f, ?m]"
    using assms m mirror_pose_right [OF assms(1), of rl]
    by (simp add: processFrame_def Let_def del: js_includes.simps replace_left_right.simps)
  show ?thesis
    apply (rule exI [of _ ?f], rule exI [of _ ?m], rule exI [of _ mw], rule exI [of _ mh])
    using g d v by simp
qed

lemma processFrame_first:
  "\<exists>f. processFrame env rl cat 4 u 0 = Resolved [f] \<and> ftype f = Body \<and> energy f = Low"
  by (simp add: processFrame_def Let_def)

lemma processFrame_settles:
  assumes "mirrorFrame env u \<noteq> Pending"
  shows "\<exists>v. processFrame env rl cat cols u i = Resolved v \<and> v \<noteq> []"
  using assms mirrorFrame_never_rejects [of env u]
  by (cases "mirrorFrame env u") (auto simp add: processFrame_def Let_def)

lemma sheetBody_Resolved:
  assumes "sheetBody env rl cat req = Resolved (frames, sh)"
  shows "\<exists>sheet rawFrames groups. sh = Some sheet \<and> sheet \<noteq> [] \<and>
           sliceSpriteSheet env (Str (''data:image/jpeg;base64,'' @ sheet)) 4 4 = Resolved rawFrames \<and>
           map (\<lambda>(frameData, i). processFrame env rl cat 4 frameData i)
               (zip rawFrames [0..<length rawFrames]) = map Resolved groups \<and>
           frames = concat groups"
  using assms
  by (auto simp add: sheetBody_def promise_all_Resolved_iff truthy_def
      split: api_result.splits list.splits option.splits promise.splits dest!: find_holds)

lemma generateSingleSheet_requests:
  "fst (generateSingleSheet env rl img st mo cat ref) = [sheetRequest rl img st mo cat ref]"
  by (simp add: generateSingleSheet_def Let_def)

lemma generateSingleSheet_never_rejects:
  "snd (generateSingleSheet env rl img st mo cat ref) \<noteq> Rejected e"
  by (simp add: generateSingleSheet_def Let_def split: promise.splits)

lemma generateSingleSheet_success:
  assumes "snd (generateSingleSheet env rl img st mo cat ref) = Resolved (frames, Some sheet)"
  shows "sheetBody env rl cat (sheetRequest rl img st mo cat ref) = Resolved (frames, Some sheet)"
  using assms
  by (auto simp add: generateSingleSheet_def Let_def split: promise.splits)

lemma sheet_groups:
  assumes "snd (generateSingleSheet env rl img st mo cat ref) = Resolved (frames, Some sheet)"
  shows "\<exists>raw groups. frames = concat groups \<and> length groups = 16 \<and> length raw = 16 \<and>
           sliceSpriteSheet env (Str (''data:image/jpeg;base64,'' @ sheet)) 4 4 = Resolved raw \<and>
           (\<forall>i<16. processFrame env rl cat 4 (raw ! i) i = Resolved (groups ! i))"
proof -
  from sheetBody_Resolved [OF generateSingleSheet_success [OF assms]]
  obtain raw groups where
    sl: "sliceSpriteSheet env (Str (''data:image/jpeg;base64,'' @ sheet)) 4 4 = Resolved raw"
    and mp: "map (\<lambda>(frameData, i). processFrame env rl cat 4 frameData i)
               (zip raw [0..<length raw]) = map Resolved groups"
    and fr: "frames = concat groups"
    by auto
  have len: "length raw = 16" by (rule sliceSpriteSheet_length [OF sl])
  from map_zip_Resolved_nth [OF mp] len
  have "length groups = 16" and "\<forall>i<16. processFrame env rl cat 4 (raw ! i) i = Resolved (groups ! i)"
    by simp_all
  with fr len sl show ?thesis by blast
qed

lemma sheet_first_frame:
  assumes "snd (generateSingleSheet env rl img st mo cat ref) = Resolved (frames, Some sheet)"
  shows "\<exists>f rest. frames = f # rest \<and> ftype f = Body \<and> energy f = Low"
proof -
  from sheet_groups [OF assms] obtain raw groups where
    fr: "frames = concat groups" and len: "length groups = 16"
    and pf: "\<forall>i<16. processFrame env rl cat 4 (raw ! i) i = Resolved (groups ! i)"
    by blast
  from pf have p0: "processFrame env rl cat 4 (raw ! 0) 0 = Resolved (groups ! 0)" by simp
  from processFrame_first [of env rl cat "raw ! 0"] p0 obtain f where
    g0: "groups ! 0 = [f]" and f: "ftype f = Body" "energy f = Low"
    by auto
  from len obtain g gs where gs: "groups = g # gs" by (cases groups) auto
  with g0 have "g = [f]" by simp
  with fr gs have "frames = f # concat gs" by simp
  with f show ?thesis by blast
qed

lemma sheet_succeeds:
  assumes gen: "generateContent env (sheetRequest rl img st mo cat ref) = Response (Some parts # others)"
    and fnd: "find (\<lambda>p. truthy (inlineData p)) parts = Some p"
    and dat: "inlineData p = Some sheet"
    and sl: "sliceSpriteSheet env (Str (''data:image/jpeg;base64,'' @ sheet)) 4 4 = Resolved raw"
    and mir: "\<forall>u\<in>set raw. mirrorFrame env u \<noteq> Pending"
  shows "\<exists>frames. snd (generateSingleSheet env rl img st mo cat ref) = Resolved (frames, Some sheet)
           \<and> frames \<noteq> []"
proof -
  have len: "length raw = 16" by (rule sliceSpriteSheet_length [OF sl])
  have "\<forall>x\<in>set (zip raw [0..<length raw]).
          \<exists>v. (\<lambda>(frameData, i). processFrame env rl cat 4 frameData i) x = Resolved v \<and> v \<noteq> []"
    using mir processFrame_settles by (auto dest: set_zip_leftD)
  from map_Resolved_ex [OF this] obtain groups where
    g: "map (\<lambda>(frameData, i). processFrame env rl cat 4 frameData i) (zip raw [0..<length raw])
          = map Resolved groups"
    and ne: "zip raw [0..<length raw] \<noteq> [] \<longrightarrow> concat groups \<noteq> []"
    by blast
  have "zip raw [0..<length raw] \<noteq> []" using len by (cases raw) auto
  with ne have ne': "concat groups \<noteq> []" by simp
  have "sheetBody env rl cat (sheetRequest rl img st mo cat ref) = Resolved (concat groups, Some sheet)"
    unfolding sheetBody_def using gen fnd dat sl g
    by (simp add: promise_all_Resolved_iff [THEN iffD2])
  then show ?thesis using ne'
    by (simp add: generateSingleSheet_def Let_def)
qed

lemma sheet_pending:
  assumes gen: "generateContent env (sheetRequest rl img st mo cat ref) = Response (Some parts # others)"
    and fnd: "find (\<lambda>p. truthy (inlineData p)) parts = Some p"
    and dat: "inlineData p = Some sheet"
    and sl: "sliceSpriteSheet env (Str (''data:image/jpeg;base64,'' @ sheet)) 4 4 = Resolved raw"
    and i: "i < length raw"
    and pf: "processFrame env rl cat 4 (raw ! i) i = Pending"
  shows "snd (generateSingleSheet env rl img st mo cat ref) = Pending"
proof -
  let ?ps = "map (\<lambda>(frameData, i). processFrame env rl cat 4 frameData i) (zip raw [0..<length raw])"
  have "?ps ! i = Pending" using i pf by simp
  moreover have "i < length ?ps" using i by simp
  ultimately have "Pending \<in> set ?ps" by (metis nth_mem)
  moreover have "\<forall>p\<in>set ?ps. \<forall>e. p \<noteq> Rejected e"
    by (auto simp add: processFrame_never_rejects)
  ultimately have "promise_all ?ps = Pending" by (simp add: promise_all_Pending)
  then have "sheetBody env rl cat (sheetRequest rl img st mo cat ref) = Pending"
    unfolding sheetBody_def using gen fnd dat sl by simp
  then show ?thesis by (simp add: generateSingleSheet_def Let_def)
qed

lemma studio_slice:
  "\<exists>raw. sliceSpriteSheet studio (Str ''data:image/jpeg;base64,QUJD'') 4 4 = Resolved raw \<and>
     (\<forall>u\<in>set raw. mirrorFrame studio u \<noteq> Pending)"
  by (simp add: sliceSpriteSheet_def studio_def Let_def mirrorFrame_def upt_0_4)

lemma studio_sheet:
  "\<exists>frames. snd (generateSingleSheet studio rl img st mo cat ref) = Resolved (frames, Some ''QUJD'')
           \<and> frames \<noteq> []"
proof -
  from studio_slice obtain raw where
    a: "sliceSpriteSheet studio (Str (''data:image/jpeg;base64,'' @ ''QUJD'')) 4 4 = Resolved raw"
    and b: "\<forall>u\<in>set raw. mirrorFrame studio u \<noteq> Pending"
    by auto
  show ?thesis
  proof (rule sheet_succeeds [OF _ _ _ a b])
    show "generateContent studio (sheetRequest rl img st mo cat ref)
            = Response (Some [\<lparr>inlineData = None\<rparr>, \<lparr>inlineData = Some ''QUJD''\<rparr>] # [])"
      by (simp add: studio_def)
    show "find (\<lambda>p. truthy (inlineData p)) [\<lparr>inlineData = None\<rparr>, \<lparr>inlineData = Some ''QUJD''\<rparr>]
            = Some \<lparr>inlineData = Some ''QUJD''\<rparr>"
      by (simp add: truthy_def)
    show "inlineData \<lparr>inlineData = Some ''QUJD''\<rparr> = Some ''QUJD''"
      by simp
  qed
qed

text \<open>
  Claim C4, as amended. In every sheet that was generated successfully, whatever its role
  and the subject category, the frames come in 16 groups in the order of the grid. The
  first frame of group \<open>i\<close> is the frame of grid index \<open>i\<close>: its image is the crop of cell
  \<open>(i div 4, i mod 4)\<close> of the sheet, and its energy is low in row 0, mid in rows 1 and 2,
  high in row 3. For a character, the frame of a cell in row 1 or 2 is a body frame and
  its group holds exactly one more frame, the duplicate: its pose has the opposite
  direction and the suffix \<open>_mirror\<close>, its energy, type and role are those of the source
  frame, and its image is the horizontal flip of the image of the source frame, encoded
  at quality 0.8, when the canvas of the mirror gives a drawing context, and the image of
  the source frame itself when it gives none. Every other group holds its one frame only.
\<close>

theorem sheet_rows_tagged:
  assumes "snd (generateSingleSheet env rl img st mo cat ref) = Resolved (frames, Some sheet)"
  shows "\<exists>groups w h.
     decode env (Str (''data:image/jpeg;base64,'' @ sheet)) = Some (w, h) \<and>
     frames = concat groups \<and> length groups = 16 \<and>
     (\<forall>i<16. \<exists>f rest. groups ! i = f # rest \<and>
        url f = CropJpeg (Str (''data:image/jpeg;base64,'' @ sheet))
                  ((real w - real (min w h)) / 2 + real (i mod 4) * (real (min w h) / 4)
                     + 0.08 * (real (min w h) / 4))
                  ((real h - real (min w h)) / 2 + real (i div 4) * (real (min w h) / 4)
                     + 0.08 * (real (min w h) / 4))
                  (0.84 * (real (min w h) / 4)) (0.84 * (real (min w h) / 4))
                  (nat \<lfloor>0.84 * (real (min w h) / 4)\<rfloor>) (nat \<lfloor>0.84 * (real (min w h) / 4)\<rfloor>)
                  0.95 \<and>
        role f = rl \<and>
        energy f = (if i div 4 = 0 then Low else if i div 4 = 3 then High else Mid) \<and>
        (if cat = CHARACTER \<and> (i div 4 = 1 \<or> i div 4 = 2)
         then ftype f = Body \<and>
              (\<exists>m mw mh. rest = [m] \<and>
                 pose f = role_name rl @ ''_'' @ show_nat i @
                            (if i div 4 = 1 then ''_left'' else ''_right'') \<and>
                 pose m = role_name rl @ ''_'' @ show_nat i @
                            (if i div 4 = 1 then ''_right_mirror'' else ''_left_mirror'') \<and>
                 energy m = energy f \<and> ftype m = ftype f \<and> role m = role f \<and>
                 decode env (url f) = Some (mw, mh) \<and>
                 url m = (if getContext env (url f) mw mh then FlipJpeg (url f) mw mh 0.8
                          else url f))
         else rest = []))"
proof -
  let ?sheet = "Str (''data:image/jpeg;base64,'' @ sheet)"
  from sheet_groups [OF assms] obtain raw groups where
    fr: "frames = concat groups" and len: "length groups = 16"
    and sl: "sliceSpriteSheet env ?sheet 4 4 = Resolved raw"
    and pf: "\<forall>i<16. processFrame env rl cat 4 (raw ! i) i = Resolved (groups ! i)"
    by blast
  from sliceSpriteSheet_cells [OF sl] obtain w h where
    dec: "decode env ?sheet = Some (w, h)"
    and cells: "\<forall>i<16. raw ! i =
        CropJpeg ?sheet
          ((real w - real (min w h)) / 2 + real (i mod 4) * (real (min w h) / 4) + 0.08 * (real (min w h) / 4))
          ((real h - real (min w h)) / 2 + real (i div 4) * (real (min w h) / 4) + 0.08 * (real (min w h) / 4))
          (0.84 * (real (min w h) / 4)) (0.84 * (real (min w h) / 4))
          (nat \<lfloor>0.84 * (real (min w h) / 4)\<rfloor>) (nat \<lfloor>0.84 * (real (min w h) / 4)\<rfloor>) 0.95"
    by blast
  have "\<exists>f rest. groups ! i = f # rest \<and>
        url f = CropJpeg ?sheet
                  ((real w - real (min w h)) / 2 + real (i mod 4) * (real (min w h) / 4)
                     + 0.08 * (real (min w h) / 4))
                  ((real h - real (min w h)) / 2 + real (i div 4) * (real (min w h) / 4)
                     + 0.08 * (real (min w h) / 4))
                  (0.84 * (real (min w h) / 4)) (0.84 * (real (min w h) / 4))
                  (nat \<lfloor>0.84 * (real (min w h) / 4)\<rfloor>) (nat \<lfloor>0.84 * (real (min w h) / 4)\<rfloor>)
                  0.95 \<and>
        role f = rl \<and>
        energy f = (if i div 4 = 0 then Low else if i div 4 = 3 then High else Mid) \<and>
        (if cat = CHARACTER \<and> (i div 4 = 1 \<or> i div 4 = 2)
         then ftype f = Body \<and>
              (\<exists>m mw mh. rest = [m] \<and>
                 pose f = role_name rl @ ''_'' @ show_nat i @
                            (if i div 4 = 1 then ''_left'' else ''_right'') \<and>
                 pose m = role_name rl @ ''_'' @ show_nat i @
                            (if i div 4 = 1 then ''_right_mirror'' else ''_left_mirror'') \<and>
                 energy m = energy f \<and> ftype m = ftype f \<and> role m = role f \<and>
                 decode env (url f) = Some (mw, mh) \<and>
                 url m = (if getContext env (url f) mw mh then FlipJpeg (url f) mw mh 0.8
                          else url f))
         else rest = [])" if i: "i < 16" for i
  proof -
    from pf i have p: "processFrame env rl cat 4 (raw ! i) i = Resolved (groups ! i)" by simp
    from cells i have c: "raw ! i =
        CropJpeg ?sheet
          ((real w - real (min w h)) / 2 + real (i mod 4) * (real (min w h) / 4) + 0.08 * (real (min w h) / 4))
          ((real h - real (min w h)) / 2 + real (i div 4) * (real (min w h) / 4) + 0.08 * (real (min w h) / 4))
          (0.84 * (real (min w h) / 4)) (0.84 * (real (min w h) / 4))
          (nat \<lfloor>0.84 * (real (min w h) / 4)\<rfloor>) (nat \<lfloor>0.84 * (real (min w h) / 4)\<rfloor>) 0.95"
      by simp
    consider (left) "cat = CHARACTER" "i div 4 = 1" | (right) "cat = CHARACTER" "i div 4 = 2"
      | (plain) "\<not> (cat = CHARACTER \<and> (i div 4 = 1 \<or> i div 4 = 2))"
      by blast
    then show ?thesis
    proof cases
      case left
      from processFrame_left [OF left(2) p [unfolded left(1)]] obtain f m mw mh where
        "groups ! i = [f, m]" "url f = raw ! i"
        "pose f = role_name rl @ ''_'' @ show_nat i @ ''_left''"
        "pose m = role_name rl @ ''_'' @ show_nat i @ ''_right_mirror''"
        "energy f = Mid" "ftype f = Body" "role f = rl"
        "energy m = energy f" "ftype m = ftype f" "role m = role f"
        "decode env (url f) = Some (mw, mh)"
        "url m = (if getContext env (url f) mw mh then FlipJpeg (url f) mw mh 0.8 else url f)"
        by blast
      then show ?thesis
        unfolding c using left by (intro exI [of _ f] exI [of _ "[m]"]) auto
    next
      case right
      from processFrame_right [OF right(2) p [unfolded right(1)]] obtain f m mw mh where
        "groups ! i = [f, m]" "url f = raw ! i"
        "pose f = role_name rl @ ''_'' @ show_nat i @ ''_right''"
        "pose m = role_name rl @ ''_'' @ show_nat i @ ''_left_mirror''"
        "energy f = Mid" "ftype f = Body" "role f = rl"
        "energy m = energy f" "ftype m = ftype f" "role m = role f"
        "decode env (url f) = Some (mw, mh)"
        "url m = (if getContext env (url f) mw mh then FlipJpeg (url f) mw mh 0.8 else url f)"
        by blast
      then show ?thesis
        unfolding c using right by (intro exI [of _ f] exI [of _ "[m]"]) auto
    next
      case plain
      from processFrame_plain [OF plain, of env rl "raw ! i"] p obtain f where
        "groups ! i = [f]" "url f = raw ! i" "role f = rl"
        "energy f = (if i div 4 = 0 then Low else if i div 4 = 3 then High else Mid)"
        by auto
      then show ?thesis
        unfolding c using plain by (intro exI [of _ f] exI [of _ "[]"]) auto
    qed
  qed
  with dec fr len show ?thesis by blast
qed

text \<open>The base sheet of a character on \<open>studio\<close>, whose sheet image is 1024 by 1000: group
  5 holds the crop of cell \<open>(1, 1)\<close>, 210 pixels wide and high, and its flip.\<close>

theorem sheet_rows_tagged_witness:
  "\<exists>frames groups f m.
     snd (generateSingleSheet studio Base subject ''neon'' ''dance'' CHARACTER None)
       = Resolved (frames, Some ''QUJD'') \<and>
     frames = concat groups \<and> length groups = 16 \<and> groups ! 5 = [f, m] \<and>
     url f = CropJpeg (Str ''data:image/jpeg;base64,QUJD'') 282 270 210 210 210 210 0.95 \<and>
     energy f = Mid \<and> ftype f = Body \<and> role f = Base \<and> pose f = ''base_5_left'' \<and>
     url m = FlipJpeg (url f) 210 210 0.8 \<and>
     pose m = ''base_5_right_mirror'' \<and> energy m = Mid \<and> ftype m = Body \<and> role m = Base"
proof -
  from studio_sheet obtain frames where
    b: "snd (generateSingleSheet studio Base subject ''neon'' ''dance''
               CHARACTER None) = Resolved (frames, Some ''QUJD'')"
    by blast
  have five: "(5::nat) < 16" by simp
  from sheet_rows_tagged [OF b] obtain groups w h where
    dec: "decode studio (Str (''data:image/jpeg;base64,'' @ ''QUJD'')) = Some (w, h)"
    and fr: "frames = concat groups" and len: "length groups = 16"
    and tg: "\<forall>i<16. \<exists>f rest. groups ! i = f # rest \<and>
        url f = CropJpeg (Str (''data:image/jpeg;base64,'' @ ''QUJD''))
                  ((real w - real (min w h)) / 2 + real (i mod 4) * (real (min w h) / 4)
                     + 0.08 * (real (min w h) / 4))
                  ((real h - real (min w h)) / 2 + real (i div 4) * (real (min w h) / 4)
                     + 0.08 * (real (min w h) / 4))
                  (0.84 * (real (min w h) / 4)) (0.84 * (real (min w h) / 4))
                  (nat \<lfloor>0.84 * (real (min w h) / 4)\<rfloor>) (nat \<lfloor>0.84 * (real (min w h) / 4)\<rfloor>)
                  0.95 \<and>
        role f = Base \<and>
        energy f = (if i div 4 = 0 then Low else if i div 4 = 3 then High else Mid) \<and>
        (if CHARACTER = CHARACTER \<and> (i div 4 = 1 \<or> i div 4 = 2)
         then ftype f = Body \<and>
              (\<exists>m mw mh. rest = [m] \<and>
                 pose f = role_name Base @ ''_'' @ show_nat i @
                            (if i div 4 = 1 then ''_left'' else ''_right'') \<and>
                 pose m = role_name Base @ ''_'' @ show_nat i @
                            (if i div 4 = 1 then ''_right_mirror'' else ''_left_mirror'') \<and>
                 energy m = energy f \<and> ftype m = ftype f \<and> role m = role f \<and>
                 decode studio (url f) = Some (mw, mh) \<and>
                 url m = (if getContext studio (url f) mw mh then FlipJpeg (url f) mw mh 0.8
                          else url f))
         else rest = [])"
    by blast
  from dec have wh: "w = 1024" "h = 1000" by (simp_all add: studio_def)
  from tg [rule_format, OF five] obtain f m mw mh where
    g: "groups ! 5 = [f, m]"
    and u: "url f = CropJpeg (Str ''data:image/jpeg;base64,QUJD'') 282 270 210 210 210 210 0.95"
    and t: "energy f = Mid" "ftype f = Body" "role f = Base"
      "pose f = ''base_5_left''" "pose m = ''base_5_right_mirror''"
      "energy m = Mid" "ftype m = Body" "role m = Base"
    and md: "decode studio (url f) = Some (mw, mh)"
    and mu: "url m = (if getContext studio (url f) mw mh then FlipJpeg (url f) mw mh 0.8
                      else url f)"
    unfolding wh by (auto simp add: role_name_def show_nat.simps)
  from md u have "mw = 210" "mh = 210" by (simp_all add: studio_def)
  with mu have "url m = FlipJpeg (url f) 210 210 0.8" by (simp add: studio_def)
  with b fr len g u t show ?thesis by blast
qed

text \<open>
  As stated, claim C4 fails where the canvas of \<^verbatim>\<open>mirrorFrame\<close> gives no drawing context
  (the function then resolves with the frame it was given): the sheet is generated, the
  duplicate \<open>base_4_right_mirror\<close> follows \<open>base_4_left\<close>, and it carries the image of
  its source frame, not mirrored.
\<close>

theorem mirror_counterexample:
  "pose (resolvedFrames (snd (generateSingleSheet no_mirror_context Base subject ''neon'' ''dance''
                                CHARACTER None)) ! 4) = ''base_4_left'' \<and>
   pose (resolvedFrames (snd (generateSingleSheet no_mirror_context Base subject ''neon'' ''dance''
                                CHARACTER None)) ! 5) = ''base_4_right_mirror'' \<and>
   url (resolvedFrames (snd (generateSingleSheet no_mirror_context Base subject ''neon'' ''dance''
                               CHARACTER None)) ! 4)
     = CropJpeg (Str ''data:image/jpeg;base64,QUJD'') 32 270 210 210 210 210 0.95 \<and>
   url (resolvedFrames (snd (generateSingleSheet no_mirror_context Base subject ''neon'' ''dance''
                               CHARACTER None)) ! 5)
     = CropJpeg (Str ''data:image/jpeg;base64,QUJD'') 32 270 210 210 210 210 0.95"
  by (simp add: resolvedFrames_def subject_def no_mirror_context_def
      generateSingleSheet_def sheetBody_def sheetRequest_def constructDynamicPrompt_def
      sliceSpriteSheet_def processFrame_def mirrorFrame_def promise_all_def studio_def truthy_def
      Let_def upt_0_4 role_name_def show_nat.simps at_index_def comma_def)

lemma tiny_slice:
  "\<exists>raw. sliceSpriteSheet tiny_alt (Str ''data:image/jpeg;base64,VElOWQ'') 4 4 = Resolved raw \<and>
     length raw = 16 \<and>
     raw ! 4 = CropJpeg (Str ''data:image/jpeg;base64,VElOWQ'') 0.08 1.08 0.84 0.84 0 0 0.95"
  by (simp add: sliceSpriteSheet_def tiny_alt_def Let_def upt_0_4)

lemma tiny_mirror:
  "mirrorFrame tiny_alt (CropJpeg (Str ''data:image/jpeg;base64,VElOWQ'') 0.08 1.08 0.84 0.84 0 0 0.95)
     = Pending"
  by (simp add: mirrorFrame_def tiny_alt_def)

lemma tiny_alt_sheet_pending:
  "snd (generateSingleSheet tiny_alt Alt img st mo CHARACTER (Some (''data:image/jpeg;base64,'' @ ''QUJD'')))
     = Pending"
proof -
  from tiny_slice obtain raw where
    sl: "sliceSpriteSheet tiny_alt (Str (''data:image/jpeg;base64,'' @ ''VElOWQ'')) 4 4 = Resolved raw"
    and len: "length raw = 16"
    and r4: "raw ! 4 = CropJpeg (Str ''data:image/jpeg;base64,VElOWQ'') 0.08 1.08 0.84 0.84 0 0 0.95"
    by auto
  have ref: "reference_part (sheetRequest Alt img st mo CHARACTER
                 (Some (''data:image/jpeg;base64,'' @ ''QUJD''))) = Some ''QUJD''"
    by (rule reference_is_base_sheet) (simp add: comma_def)
  have gen: "generateContent tiny_alt (sheetRequest Alt img st mo CHARACTER
                 (Some (''data:image/jpeg;base64,'' @ ''QUJD'')))
               = Response (Some [\<lparr>inlineData = Some ''VElOWQ''\<rparr>] # [])"
    using ref by (simp add: tiny_alt_def del: append.simps)
  have fnd: "find (\<lambda>p. truthy (inlineData p)) [\<lparr>inlineData = Some ''VElOWQ''\<rparr>]
               = Some \<lparr>inlineData = Some ''VElOWQ''\<rparr>"
    by (simp add: truthy_def)
  have pf: "processFrame tiny_alt Alt CHARACTER 4 (raw ! 4) 4 = Pending"
    unfolding r4 using tiny_mirror by (simp add: processFrame_def Let_def)
  show ?thesis
    by (rule sheet_pending [OF gen fnd _ sl _ pf]) (simp_all add: len)
qed

lemma tiny_base_sheet:
  "\<exists>frames. snd (generateSingleSheet tiny_alt Base img st mo cat None) = Resolved (frames, Some ''QUJD'')
           \<and> frames \<noteq> []"
proof -
  have "\<exists>raw. sliceSpriteSheet tiny_alt (Str ''data:image/jpeg;base64,QUJD'') 4 4 = Resolved raw \<and>
     (\<forall>u\<in>set raw. mirrorFrame tiny_alt u \<noteq> Pending)"
    by (simp add: sliceSpriteSheet_def tiny_alt_def Let_def mirrorFrame_def upt_0_4)
  then obtain raw where
    a: "sliceSpriteSheet tiny_alt (Str (''data:image/jpeg;base64,'' @ ''QUJD'')) 4 4 = Resolved raw"
    and b: "\<forall>u\<in>set raw. mirrorFrame tiny_alt u \<noteq> Pending"
    by auto
  show ?thesis
  proof (rule sheet_succeeds [OF _ _ _ a b])
    show "generateContent tiny_alt (sheetRequest Base img st mo cat None)
            = Response (Some [\<lparr>inlineData = Some ''QUJD''\<rparr>] # [])"
      by (simp add: tiny_alt_def sheetRequest_def Let_def)
    show "find (\<lambda>p. truthy (inlineData p)) [\<lparr>inlineData = Some ''QUJD''\<rparr>]
            = Some \<lparr>inlineData = Some ''QUJD''\<rparr>"
      by (simp add: truthy_def)
    show "inlineData \<lparr>inlineData = Some ''QUJD''\<rparr> = Some ''QUJD''"
      by simp
  qed
qed

text \<open>
  Claim C9 says that \<^verbatim>\<open>mirrorFrame\<close> completes for every frame image. The code does not:
  for a frame that does not load as an image the promise never settles. The slices of a
  sheet of 4 by 4 pixels are such frames (their canvas has no pixels), and the alt sheet of
  a character that receives such a sheet never finishes.
\<close>

theorem mirrorFrame_hangs:
  "decode tiny_alt (CropJpeg (Str ''data:image/jpeg;base64,VElOWQ'') 0.08 1.08 0.84 0.84 0 0 0.95) = None \<and>
   mirrorFrame tiny_alt (CropJpeg (Str ''data:image/jpeg;base64,VElOWQ'') 0.08 1.08 0.84 0.84 0 0 0.95)
     = Pending \<and>
   snd (generateSingleSheet tiny_alt Alt ''data:image/png;base64,SUBJ'' ''neon'' ''dance'' CHARACTER
          (Some ''data:image/jpeg;base64,QUJD'')) = Pending"
  using tiny_mirror tiny_alt_sheet_pending [of "''data:image/png;base64,SUBJ''" "''neon''" "''dance''"]
  by (simp add: tiny_alt_def)

subsection \<open>Orchestration\<close>

lemma dance_base_failed:
  assumes "snd (generateSingleSheet env Base img st mo (resolveCategory mo ec) None) = Resolved (frames, sheet)"
    and "frames = [] \<or> \<not> truthy sheet"
  shows "generateDanceFrames env img st mo useTurbo superMode ec =
           ([[sheetRequest Base img st mo (resolveCategory mo ec) None]], Rejected BaseGenerationFailed)"
  using assms
  by (auto simp add: generateDanceFrames_def Let_def generateSingleSheet_requests truthy_def
      split: option.splits)

lemma dance_turbo:
  assumes "useTurbo" "\<not> superMode"
  shows "fst (generateDanceFrames env img st mo useTurbo superMode ec) =
           [[sheetRequest Base img st mo (resolveCategory mo ec) None]]"
  using assms
  by (auto simp add: generateDanceFrames_def Let_def generateSingleSheet_requests
      split: option.splits promise.splits)

lemma dance_quality:
  assumes "snd (generateSingleSheet env Base img st mo (resolveCategory mo ec) None) = Resolved (frames, Some sheet)"
    and "frames \<noteq> []" "sheet \<noteq> []" "\<not> useTurbo" "\<not> superMode"
  shows "fst (generateDanceFrames env img st mo useTurbo superMode ec) =
           [[sheetRequest Base img st mo (resolveCategory mo ec) None],
            [sheetRequest Alt img st mo (resolveCategory mo ec) (Some (''data:image/jpeg;base64,'' @ sheet))]]"
  using assms
  by (simp add: generateDanceFrames_def Let_def generateSingleSheet_requests)

lemma dance_super:
  assumes "snd (generateSingleSheet env Base img st mo (resolveCategory mo ec) None) = Resolved (frames, Some sheet)"
    and "frames \<noteq> []" "sheet \<noteq> []" "superMode"
  shows "fst (generateDanceFrames env img st mo useTurbo superMode ec) =
           [[sheetRequest Base img st mo (resolveCategory mo ec) None],
            [sheetRequest Alt img st mo (resolveCategory mo ec) (Some (''data:image/jpeg;base64,'' @ sheet)),
             sheetRequest Flourish img st mo (resolveCategory mo ec) (Some (''data:image/jpeg;base64,'' @ sheet))]]"
  using assms
  by (simp add: generateDanceFrames_def Let_def generateSingleSheet_requests)

lemma offline_sheet: "snd (generateSingleSheet offline rl img st mo cat ref) = Resolved ([], None)"
  by (simp add: generateSingleSheet_def sheetBody_def offline_def studio_def Let_def)

text \<open>
  Claim C2. In every mode, when the base sheet yields no frame or no sheet image, the call
  fails with the base-generation error, and the base request is the only request issued.
\<close>

theorem base_failure_fails_call:
  assumes "snd (generateSingleSheet env Base img st mo (resolveCategory mo ec) None) = Resolved (frames, sheet)"
    and "frames = [] \<or> \<not> truthy sheet"
  shows "generateDanceFrames env img st mo useTurbo superMode ec =
           ([[sheetRequest Base img st mo (resolveCategory mo ec) None]], Rejected BaseGenerationFailed)"
  using assms
  by (auto simp add: generateDanceFrames_def Let_def generateSingleSheet_requests truthy_def
      split: option.splits)

theorem base_failure_fails_call_witness:
  "snd (generateSingleSheet offline Base ''data:image/png;base64,SUBJ'' ''neon'' ''dance''
          (resolveCategory ''dance'' (Some CHARACTER)) None) = Resolved ([], None) \<and>
   generateDanceFrames offline ''data:image/png;base64,SUBJ'' ''neon'' ''dance'' False True (Some CHARACTER) =
     ([[sheetRequest Base ''data:image/png;base64,SUBJ'' ''neon'' ''dance''
          (resolveCategory ''dance'' (Some CHARACTER)) None]],
      Rejected BaseGenerationFailed)"
  using base_failure_fails_call [where env = offline and img = "''data:image/png;base64,SUBJ''"
      and st = "''neon''" and mo = "''dance''" and ec = "Some CHARACTER" and frames = "[]"
      and sheet = None and useTurbo = False and superMode = True]
    offline_sheet
  by (simp add: truthy_def)

text \<open>
  Claim C1, as amended. With the turbo flag set and the super flag clear, the base request
  is the only request. When the base sheet has at least one frame and a sheet image:
  without either flag the log is the base request, awaited, and then the alt request;
  with the super flag (whatever the turbo flag) it is the base request, awaited, and then
  the alt and the flourish request issued together. The expansion requests carry the
  payload of the base sheet as their reference part when that payload has no comma, as
  base64 text has none.
\<close>

theorem request_schedule:
  "(useTurbo \<and> \<not> superMode \<longrightarrow>
      fst (generateDanceFrames env img st mo useTurbo superMode ec) =
        [[sheetRequest Base img st mo (resolveCategory mo ec) None]]) \<and>
   (snd (generateSingleSheet env Base img st mo (resolveCategory mo ec) None) = Resolved (frames, Some sheet)
      \<and> frames \<noteq> [] \<and> sheet \<noteq> [] \<longrightarrow>
      (\<not> useTurbo \<and> \<not> superMode \<longrightarrow>
         fst (generateDanceFrames env img st mo useTurbo superMode ec) =
           [[sheetRequest Base img st mo (resolveCategory mo ec) None],
            [sheetRequest Alt img st mo (resolveCategory mo ec)
               (Some (''data:image/jpeg;base64,'' @ sheet))]]) \<and>
      (superMode \<longrightarrow>
         fst (generateDanceFrames env img st mo useTurbo superMode ec) =
           [[sheetRequest Base img st mo (resolveCategory mo ec) None],
            [sheetRequest Alt img st mo (resolveCategory mo ec)
               (Some (''data:image/jpeg;base64,'' @ sheet)),
             sheetRequest Flourish img st mo (resolveCategory mo ec)
               (Some (''data:image/jpeg;base64,'' @ sheet))]]) \<and>
      (comma \<notin> set sheet \<longrightarrow>
         reference_part (sheetRequest Alt img st mo (resolveCategory mo ec)
                           (Some (''data:image/jpeg;base64,'' @ sheet))) = Some sheet \<and>
         reference_part (sheetRequest Flourish img st mo (resolveCategory mo ec)
                           (Some (''data:image/jpeg;base64,'' @ sheet))) = Some sheet))"
proof (intro conjI impI)
  assume "useTurbo \<and> \<not> superMode"
  then show "fst (generateDanceFrames env img st mo useTurbo superMode ec) =
        [[sheetRequest Base img st mo (resolveCategory mo ec) None]]"
    using dance_turbo by blast
next
  assume b: "snd (generateSingleSheet env Base img st mo (resolveCategory mo ec) None) = Resolved (frames, Some sheet)
      \<and> frames \<noteq> [] \<and> sheet \<noteq> []"
    and m: "\<not> useTurbo \<and> \<not> superMode"
  then show "fst (generateDanceFrames env img st mo useTurbo superMode ec) =
           [[sheetRequest Base img st mo (resolveCategory mo ec) None],
            [sheetRequest Alt img st mo (resolveCategory mo ec)
               (Some (''data:image/jpeg;base64,'' @ sheet))]]"
    using dance_quality by blast
next
  assume b: "snd (generateSingleSheet env Base img st mo (resolveCategory mo ec) None) = Resolved (frames, Some sheet)
      \<and> frames \<noteq> [] \<and> sheet \<noteq> []"
    and m: "superMode"
  then show "fst (generateDanceFrames env img st mo useTurbo superMode ec) =
           [[sheetRequest Base img st mo (resolveCategory mo ec) None],
            [sheetRequest Alt img st mo (resolveCategory mo ec)
               (Some (''data:image/jpeg;base64,'' @ sheet)),
             sheetRequest Flourish img st mo (resolveCategory mo ec)
               (Some (''data:image/jpeg;base64,'' @ sheet))]]"
    using dance_super by blast
next
  assume "comma \<notin> set sheet"
  then show "reference_part (sheetRequest Alt img st mo (resolveCategory mo ec)
                           (Some (''data:image/jpeg;base64,'' @ sheet))) = Some sheet"
    by (rule reference_is_base_sheet)
next
  assume "comma \<notin> set sheet"
  then show "reference_part (sheetRequest Flourish img st mo (resolveCategory mo ec)
                           (Some (''data:image/jpeg;base64,'' @ sheet))) = Some sheet"
    by (rule reference_is_base_sheet)
qed

text \<open>The three modes on a platform where every sheet succeeds.\<close>

theorem request_schedule_witness:
  "fst (generateDanceFrames studio ''data:image/png;base64,SUBJ'' ''neon'' ''dance'' True False (Some TEXT)) =
     [[sheetRequest Base ''data:image/png;base64,SUBJ'' ''neon'' ''dance'' TEXT None]] \<and>
   fst (generateDanceFrames studio ''data:image/png;base64,SUBJ'' ''neon'' ''dance'' False False (Some TEXT)) =
     [[sheetRequest Base ''data:image/png;base64,SUBJ'' ''neon'' ''dance'' TEXT None],
      [sheetRequest Alt ''data:image/png;base64,SUBJ'' ''neon'' ''dance'' TEXT
         (Some ''data:image/jpeg;base64,QUJD'')]] \<and>
   fst (generateDanceFrames studio ''data:image/png;base64,SUBJ'' ''neon'' ''dance'' False True (Some TEXT)) =
     [[sheetRequest Base ''data:image/png;base64,SUBJ'' ''neon'' ''dance'' TEXT None],
      [sheetRequest Alt ''data:image/png;base64,SUBJ'' ''neon'' ''dance'' TEXT
         (Some ''data:image/jpeg;base64,QUJD''),
       sheetRequest Flourish ''data:image/png;base64,SUBJ'' ''neon'' ''dance'' TEXT
         (Some ''data:image/jpeg;base64,QUJD'')]] \<and>
   reference_part (sheetRequest Base ''data:image/png;base64,SUBJ'' ''neon'' ''dance'' TEXT None) = None \<and>
   reference_part (sheetRequest Alt ''data:image/png;base64,SUBJ'' ''neon'' ''dance'' TEXT
                     (Some ''data:image/jpeg;base64,QUJD'')) = Some ''QUJD''"
proof -
  have c: "resolveCategory ''dance'' (Some TEXT) = TEXT"
    by (simp add: resolveCategory_def)
  from studio_sheet obtain frames where
    b: "snd (generateSingleSheet studio Base ''data:image/png;base64,SUBJ'' ''neon'' ''dance''
               (resolveCategory ''dance'' (Some TEXT)) None) = Resolved (frames, Some ''QUJD'')"
    and ne: "frames \<noteq> []"
    by blast
  have nc: "comma \<notin> set ''QUJD''" by (simp add: comma_def)
  have n: "reference_part (sheetRequest Base ''data:image/png;base64,SUBJ'' ''neon'' ''dance'' TEXT None) = None"
    by (simp add: sheetRequest_def Let_def)
  show ?thesis
    using request_schedule [where env = studio and img = "''data:image/png;base64,SUBJ''"
        and st = "''neon''" and mo = "''dance''" and ec = "Some TEXT" and frames = frames
        and sheet = "''QUJD''" and useTurbo = True and superMode = False]
      request_schedule [where env = studio and img = "''data:image/png;base64,SUBJ''"
        and st = "''neon''" and mo = "''dance''" and ec = "Some TEXT" and frames = frames
        and sheet = "''QUJD''" and useTurbo = False and superMode = False]
      request_schedule [where env = studio and img = "''data:image/png;base64,SUBJ''"
        and st = "''neon''" and mo = "''dance''" and ec = "Some TEXT" and frames = frames
        and sheet = "''QUJD''" and useTurbo = False and superMode = True]
      b ne nc n
    by (simp add: c)
qed

text \<open>
  As stated, for every call, claim C1 fails: on a platform whose remote call throws, the
  base sheet has no frames, and a call in quality mode issues one request, not two.
\<close>

theorem request_count_counterexample:
  "fst (generateDanceFrames offline ''data:image/png;base64,SUBJ'' ''neon'' ''dance'' False False
          (Some CHARACTER)) =
     [[sheetRequest Base ''data:image/png;base64,SUBJ'' ''neon'' ''dance'' CHARACTER None]] \<and>
   length (concat (fst (generateDanceFrames offline ''data:image/png;base64,SUBJ'' ''neon'' ''dance''
                          False False (Some CHARACTER)))) \<noteq> 2"
  using dance_base_failed [where env = offline and img = "''data:image/png;base64,SUBJ''"
      and st = "''neon''" and mo = "''dance''" and ec = "Some CHARACTER" and frames = "[]"
      and sheet = None and useTurbo = False and superMode = False]
    offline_sheet
  by (simp add: truthy_def resolveCategory_def)

text \<open>
  The older variant issues one request, or two together in super mode, and none with a
  reference.
\<close>

lemma older_schedule:
  "fst (generateDanceFrames_older env img st mo useTurbo superMode ec) =
     [sheetRequest_older Base img st mo (resolveCategory mo ec)
        # (if superMode then [sheetRequest_older Alt img st mo (resolveCategory mo ec)] else [])]"
  by (simp add: generateDanceFrames_older_def generateSingleSheet_older_def Let_def)

lemma appendExpansion_prefix: "prefix allFrames (appendExpansion allFrames results)"
  unfolding appendExpansion_def
proof (induction results arbitrary: allFrames)
  case Nil
  then show ?case by simp
next
  case (Cons r rs)
  have "prefix allFrames (if fst r \<noteq> [] then allFrames @ fst r else allFrames)" by simp
  then show ?case using Cons [of "if fst r \<noteq> [] then allFrames @ fst r else allFrames"]
    by (auto intro: prefix_order.trans simp del: prefix_code)
qed

text \<open>
  What holds after a successful base sheet: the call never rejects, and when it resolves
  its frames start with the frames of the base sheet.
\<close>

lemma dance_after_base:
  assumes "snd (generateSingleSheet env Base img st mo (resolveCategory mo ec) None) = Resolved (frames, Some sheet)"
    and "frames \<noteq> []" "sheet \<noteq> []"
  shows "snd (generateDanceFrames env img st mo useTurbo superMode ec) \<noteq> Rejected e"
    and "snd (generateDanceFrames env img st mo useTurbo superMode ec) = Resolved (allFrames, c)
           \<Longrightarrow> prefix frames allFrames \<and> c = resolveCategory mo ec"
proof -
  have ne: "appendExpansion frames results \<noteq> []" for results
    using appendExpansion_prefix [of frames results] assms(2) by auto
  have nr: "promise_all [snd (generateSingleSheet env r1 img st mo cat ref1)] \<noteq> Rejected e"
    for r1 cat ref1
    by (rule promise_all_no_rejection) (simp add: generateSingleSheet_never_rejects)
  have nr2: "promise_all [snd (generateSingleSheet env r1 img st mo cat ref1),
                          snd (generateSingleSheet env r2 img st mo cat ref2)] \<noteq> Rejected e"
    for r1 r2 cat ref1 ref2
    by (rule promise_all_no_rejection) (simp add: generateSingleSheet_never_rejects)
  show "snd (generateDanceFrames env img st mo useTurbo superMode ec) \<noteq> Rejected e"
    using assms ne nr nr2
    by (auto simp add: generateDanceFrames_def Let_def split: promise.splits)
  show "snd (generateDanceFrames env img st mo useTurbo superMode ec) = Resolved (allFrames, c)
           \<Longrightarrow> prefix frames allFrames \<and> c = resolveCategory mo ec"
    using assms ne appendExpansion_prefix [of frames]
    by (auto simp add: generateDanceFrames_def Let_def split: promise.splits if_splits)
qed

lemma dance_resolved_base:
  assumes "snd (generateDanceFrames env img st mo useTurbo superMode ec) = Resolved (allFrames, c)"
  shows "\<exists>frames sheet.
           snd (generateSingleSheet env Base img st mo (resolveCategory mo ec) None)
             = Resolved (frames, Some sheet) \<and> frames \<noteq> [] \<and> sheet \<noteq> []"
  using assms
  by (auto simp add: generateDanceFrames_def Let_def split: promise.splits option.splits if_splits)

lemma generated_frames_start_with_body:
  assumes "snd (generateDanceFrames env img st mo useTurbo superMode ec) = Resolved (allFrames, c)"
  shows "\<exists>f rest. map LoadFrame.truncate allFrames = f # rest \<and> ftype f = Body \<and> energy f = Low"
proof -
  from dance_resolved_base [OF assms] obtain frames sheet where
    b: "snd (generateSingleSheet env Base img st mo (resolveCategory mo ec) None)
             = Resolved (frames, Some sheet)" and ne: "frames \<noteq> []" "sheet \<noteq> []"
    by blast
  from dance_after_base(2) [OF b ne assms] have "prefix frames allFrames" by simp
  then obtain others where a: "allFrames = frames @ others" by (auto simp add: prefix_def)
  from sheet_first_frame [OF b] obtain f rest where
    "frames = f # rest" "ftype f = Body" "energy f = Low" by blast
  with a have "map LoadFrame.truncate allFrames = LoadFrame.truncate f # map LoadFrame.truncate (rest @ others)"
    "ftype (LoadFrame.truncate f) = Body" "energy (LoadFrame.truncate f) = Low"
    by (simp_all add: LoadFrame.truncate_def)
  then show ?thesis by (intro exI conjI)
qed

text \<open>
  Claim C10 says that the call returns once the base sheet has succeeded. The code does
  not when an expansion never settles: with a good base sheet and an alt sheet of 4 by 4
  pixels, the call in quality mode stays pending.
\<close>

theorem expansion_hang_blocks_call:
  "\<exists>frames. snd (generateSingleSheet tiny_alt Base ''data:image/png;base64,SUBJ'' ''neon'' ''dance''
                    CHARACTER None) = Resolved (frames, Some ''QUJD'') \<and>
     frames \<noteq> [] \<and>
     snd (generateDanceFrames tiny_alt ''data:image/png;base64,SUBJ'' ''neon'' ''dance'' False False
            (Some CHARACTER)) = Pending"
proof -
  from tiny_base_sheet obtain frames where
    b: "snd (generateSingleSheet tiny_alt Base ''data:image/png;base64,SUBJ'' ''neon'' ''dance''
               CHARACTER None) = Resolved (frames, Some ''QUJD'')"
    and ne: "frames \<noteq> []"
    by blast
  have "snd (generateDanceFrames tiny_alt ''data:image/png;base64,SUBJ'' ''neon'' ''dance'' False False
            (Some CHARACTER)) = Pending"
    using b ne tiny_alt_sheet_pending [of "''data:image/png;base64,SUBJ''" "''neon''" "''dance''"]
    by (simp add: generateDanceFrames_def resolveCategory_def Let_def promise_all_def
        del: append.simps)
  with b ne show ?thesis by blast
qed

subsection \<open>Pose names\<close>

text \<open>Every frame of a sheet is named after the role of the sheet and its grid index; no
  frame of a settled generation is named \<open>base\<close>.\<close>

lemma role_pose_not_base: "role_name rl @ ''_'' @ s \<noteq> ''base''"
  by (cases rl) (simp_all add: role_name_def)

lemma processFrame_poses:
  assumes "processFrame env rl cat 4 u i = Resolved g"
  shows "\<forall>f\<in>set g. pose f \<noteq> ''base''"
proof -
  consider (left) "cat = CHARACTER" "i div 4 = 1" | (right) "cat = CHARACTER" "i div 4 = 2"
    | (plain) "\<not> (cat = CHARACTER \<and> (i div 4 = 1 \<or> i div 4 = 2))"
    by blast
  then show ?thesis
  proof cases
    case left
    from processFrame_left [OF left(2) assms [unfolded left(1)]] obtain f m where
      "g = [f, m]" "pose f = role_name rl @ ''_'' @ show_nat i @ ''_left''"
      "pose m = role_name rl @ ''_'' @ show_nat i @ ''_right_mirror''"
      by blast
    then show ?thesis
      using role_pose_not_base [of rl "show_nat i @ ''_left''"]
        role_pose_not_base [of rl "show_nat i @ ''_right_mirror''"] by simp
  next
    case right
    from processFrame_right [OF right(2) assms [unfolded right(1)]] obtain f m where
      "g = [f, m]" "pose f = role_name rl @ ''_'' @ show_nat i @ ''_right''"
      "pose m = role_name rl @ ''_'' @ show_nat i @ ''_left_mirror''"
      by blast
    then show ?thesis
      using role_pose_not_base [of rl "show_nat i @ ''_right''"]
        role_pose_not_base [of rl "show_nat i @ ''_left_mirror''"] by simp
  next
    case plain
    from processFrame_plain [OF plain, of env rl u] assms obtain f where
      "g = [f]" "pose f = role_name rl @ ''_'' @ show_nat i"
      by auto
    then show ?thesis
      using role_pose_not_base [of rl "show_nat i"] by simp
  qed
qed

lemma sheet_poses:
  assumes "snd (generateSingleSheet env rl img st mo cat ref) = Resolved (frames, sh)"
  shows "\<forall>f\<in>set frames. pose f \<noteq> ''base''"
proof (cases sh)
  case None
  with assms have "frames = []"
    by (auto simp add: generateSingleSheet_def Let_def split: promise.splits
        dest: sheetBody_Resolved)
  then show ?thesis by simp
next
  case (Some sheet)
  from sheet_groups [OF assms [unfolded Some]] obtain raw groups where
    fr: "frames = concat groups" and len: "length groups = 16"
    and pf: "\<forall>i<16. processFrame env rl cat 4 (raw ! i) i = Resolved (groups ! i)"
    by blast
  show ?thesis
  proof
    fix f assume "f \<in> set frames"
    with fr obtain g where g: "g \<in> set groups" "f \<in> set g" by auto
    then obtain i where "i < 16" "g = groups ! i"
      using len by (auto simp add: in_set_conv_nth)
    with pf have "processFrame env rl cat 4 (raw ! i) i = Resolved g" by simp
    from processFrame_poses [OF this] g(2) show "pose f \<noteq> ''base''" by simp
  qed
qed

lemma appendExpansion_set:
  "set (appendExpansion xs results) \<subseteq> set xs \<union> (\<Union>r\<in>set results. set (fst r))"
proof (induction results arbitrary: xs)
  case Nil
  then show ?case by (simp add: appendExpansion_def)
next
  case (Cons r rs)
  show ?case
  proof (cases "fst r = []")
    case True
    then have "appendExpansion xs (r # rs) = appendExpansion xs rs"
      by (simp add: appendExpansion_def)
    with Cons.IH [of xs] show ?thesis by auto
  next
    case False
    then have "appendExpansion xs (r # rs) = appendExpansion (xs @ fst r) rs"
      by (simp add: appendExpansion_def)
    with Cons.IH [of "xs @ fst r"] show ?thesis by auto
  qed
qed

lemma generated_poses_not_base:
  assumes "snd (generateDanceFrames env img st mo useTurbo superMode ec) = Resolved (allFrames, c)"
  shows "\<forall>f\<in>set allFrames. pose f \<noteq> ''base''"
proof -
  let ?cat = "resolveCategory mo ec"
  from dance_resolved_base [OF assms] obtain frames sheet where
    b: "snd (generateSingleSheet env Base img st mo ?cat None) = Resolved (frames, Some sheet)"
    and ne: "frames \<noteq> []" "sheet \<noteq> []"
    by blast
  let ?expand = "\<lambda>rl. snd (generateSingleSheet env rl img st mo ?cat
                              (Some (''data:image/jpeg;base64,'' @ sheet)))"
  have sheet: "\<forall>f\<in>set fr. pose f \<noteq> ''base''" if "?expand rl = Resolved (fr, sh)" for rl fr sh
    using sheet_poses [OF that] .
  have settled: "\<forall>f\<in>set (appendExpansion frames results). pose f \<noteq> ''base''"
    if "promise_all (map ?expand rls) = Resolved results" for rls results
  proof -
    from that have m: "map ?expand rls = map Resolved results"
      by (simp add: promise_all_Resolved_iff)
    have expansions: "\<forall>f\<in>set (fst r). pose f \<noteq> ''base''" if r: "r \<in> set results" for r
    proof -
      from r have "Resolved r \<in> set (map ?expand rls)" unfolding m by simp
      then obtain rl where "?expand rl = Resolved (fst r, snd r)" by auto
      from sheet [OF this] show ?thesis .
    qed
    show ?thesis
    proof
      fix f assume "f \<in> set (appendExpansion frames results)"
      with appendExpansion_set [of frames results]
      have "f \<in> set frames \<or> (\<exists>r\<in>set results. f \<in> set (fst r))" by auto
      then show "pose f \<noteq> ''base''"
        using sheet_poses [OF b] expansions by auto
    qed
  qed
  consider (turbo) "\<not> superMode" "useTurbo" | (quality) "\<not> superMode" "\<not> useTurbo"
    | (super) "superMode" by blast
  then show ?thesis
  proof cases
    case turbo
    with assms b ne have "allFrames = frames"
      by (simp add: generateDanceFrames_def Let_def split: if_splits)
    with sheet_poses [OF b] show ?thesis by simp
  next
    case quality
    with assms b ne obtain results where
      r: "promise_all (map ?expand [Alt]) = Resolved results"
        "allFrames = appendExpansion frames results"
      by (simp add: generateDanceFrames_def Let_def split: promise.splits if_splits)
    from settled [of "[Alt]", OF r(1)] r(2) show ?thesis by simp
  next
    case super
    with assms b ne obtain results where
      r: "promise_all (map ?expand [Alt, Flourish]) = Resolved results"
        "allFrames = appendExpansion frames results"
      by (simp add: generateDanceFrames_def Let_def split: promise.splits if_splits)
    from settled [of "[Alt, Flourish]", OF r(1)] r(2) show ?thesis by simp
  qed
qed

section \<open>Properties of the preview\<close>

subsection \<open>Pools\<close>

text \<open>The frames the preview loads after a turbo generation for a character on \<open>studio\<close>:
  the 24 frames of the base sheet.\<close>

lemma generated_frames:
  "framesToLoad generated =
     [\<lparr> url = CropJpeg (Str ''data:image/jpeg;base64,QUJD'') 32 20 210 210 210 210 0.95,
        pose = ''base_0'', energy = Low, ftype = Body \<rparr>,
      \<lparr> url = CropJpeg (Str ''data:image/jpeg;base64,QUJD'') 282 20 210 210 210 210 0.95,
        pose = ''base_1'', energy = Low, ftype = Body \<rparr>,
      \<lparr> url = CropJpeg (Str ''data:image/jpeg;base64,QUJD'') 532 20 210 210 210 210 0.95,
        pose = ''base_2'', energy = Low, ftype = Body \<rparr>,
      \<lparr> url = CropJpeg (Str ''data:image/jpeg;base64,QUJD'') 782 20 210 210 210 210 0.95,
        pose = ''base_3'', energy = Low, ftype = Body \<rparr>,
      \<lparr> url = CropJpeg (Str ''data:image/jpeg;base64,QUJD'') 32 270 210 210 210 210 0.95,
        pose = ''base_4_left'', energy = Mid, ftype = Body \<rparr>,
      \<lparr> url = FlipJpeg
                (CropJpeg (Str ''data:image/jpeg;base64,QUJD'') 32 270 210 210 210 210 0.95)
                210 210 0.8,
        pose = ''base_4_right_mirror'', energy = Mid, ftype = Body \<rparr>,
      \<lparr> url = CropJpeg (Str ''data:image/jpeg;base64,QUJD'') 282 270 210 210 210 210 0.95,
        pose = ''base_5_left'', energy = Mid, ftype = Body \<rparr>,
      \<lparr> url = FlipJpeg
                (CropJpeg (Str ''data:image/jpeg;base64,QUJD'') 282 270 210 210 210 210 0.95)
                210 210 0.8,
        pose = ''base_5_right_mirror'', energy = Mid, ftype = Body \<rparr>,
      \<lparr> url = CropJpeg (Str ''data:image/jpeg;base64,QUJD'') 532 270 210 210 210 210 0.95,
        pose = ''base_6_left'', energy = Mid, ftype = Body \<rparr>,
      \<lparr> url = FlipJpeg
                (CropJpeg (Str ''data:image/jpeg;base64,QUJD'') 532 270 210 210 210 210 0.95)
                210 210 0.8,
        pose = ''base_6_right_mirror'', energy = Mid, ftype = Body \<rparr>,
      \<lparr> url = CropJpeg (Str ''data:image/jpeg;base64,QUJD'') 782 270 210 210 210 210 0.95,
        pose = ''base_7_left'', energy = Mid, ftype = Body \<rparr>,
      \<lparr> url = FlipJpeg
                (CropJpeg (Str ''data:image/jpeg;base64,QUJD'') 782 270 210 210 210 210 0.95)
                210 210 0.8,
        pose = ''base_7_right_mirror'', energy = Mid, ftype = Body \<rparr>,
      \<lparr> url = CropJpeg (Str ''data:image/jpeg;base64,QUJD'') 32 520 210 210 210 210 0.95,
        pose = ''base_8_right'', energy = Mid, ftype = Body \<rparr>,
      \<lparr> url = FlipJpeg
                (CropJpeg (Str ''data:image/jpeg;base64,QUJD'') 32 520 210 210 210 210 0.95)
                210 210 0.8,
        pose = ''base_8_left_mirror'', energy = Mid, ftype = Body \<rparr>,
      \<lparr> url = CropJpeg (Str ''data:image/jpeg;base64,QUJD'') 282 520 210 210 210 210 0.95,
        pose = ''base_9_right'', energy = Mid, ftype = Body \<rparr>,
      \<lparr> url = FlipJpeg
                (CropJpeg (Str ''data:image/jpeg;base64,QUJD'') 282 520 210 210 210 210 0.95)
                210 210 0.8,
        pose = ''base_9_left_mirror'', energy = Mid, ftype = Body \<rparr>,
      \<lparr> url = CropJpeg (Str ''data:image/jpeg;base64,QUJD'') 532 520 210 210 210 210 0.95,
        pose = ''base_10_right'', energy = Mid, ftype = Body \<rparr>,
      \<lparr> url = FlipJpeg
                (CropJpeg (Str ''data:image/jpeg;base64,QUJD'') 532 520 210 210 210 210 0.95)
                210 210 0.8,
        pose = ''base_10_left_mirror'', energy = Mid, ftype = Body \<rparr>,
      \<lparr> url = CropJpeg (Str ''data:image/jpeg;base64,QUJD'') 782 520 210 210 210 210 0.95,
        pose = ''base_11_right'', energy = Mid, ftype = Body \<rparr>,
      \<lparr> url = FlipJpeg
                (CropJpeg (Str ''data:image/jpeg;base64,QUJD'') 782 520 210 210 210 210 0.95)
                210 210 0.8,
        pose = ''base_11_left_mirror'', energy = Mid, ftype = Body \<rparr>,
      \<lparr> url = CropJpeg (Str ''data:image/jpeg;base64,QUJD'') 32 770 210 210 210 210 0.95,
        pose = ''base_12'', energy = High, ftype = Body \<rparr>,
      \<lparr> url = CropJpeg (Str ''data:image/jpeg;base64,QUJD'') 282 770 210 210 210 210 0.95,
        pose = ''base_13'', energy = High, ftype = Body \<rparr>,
      \<lparr> url = CropJpeg (Str ''data:image/jpeg;base64,QUJD'') 532 770 210 210 210 210 0.95,
        pose = ''base_14'', energy = High, ftype = Body \<rparr>,
      \<lparr> url = CropJpeg (Str ''data:image/jpeg;base64,QUJD'') 782 770 210 210 210 210 0.95,
        pose = ''base_15'', energy = High, ftype = Body \<rparr>]"
  by (simp add: generated_def framesToLoad_def resolvedFrames_def subject_def
      generateDanceFrames_def resolveCategory_def LoadFrame.truncate_def
      generateSingleSheet_def sheetBody_def sheetRequest_def constructDynamicPrompt_def
      sliceSpriteSheet_def processFrame_def mirrorFrame_def promise_all_def studio_def truthy_def
      Let_def upt_0_4 role_name_def show_nat.simps at_index_def comma_def)

lemma foldl_pushFrame_byEnergy:
  "framesByEnergy (foldl pushFrame acc fs) e =
     framesByEnergy acc e @ map pose (filter (\<lambda>f. ftype f \<noteq> Closeup \<and> energy f = e) fs)"
  by (induction fs arbitrary: acc) (auto simp add: pushFrame_def)

lemma collected_empty_iff:
  "framesByEnergy (foldl pushFrame \<lparr> framesByEnergy = (\<lambda>e. []), closeupFrames = [] \<rparr> fs) e = []
     \<longleftrightarrow> \<not> (\<exists>f. f \<in> set fs \<and> ftype f = Body \<and> energy f = e)"
proof -
  have "ftype f \<noteq> Closeup \<longleftrightarrow> ftype f = Body" for f :: LoadFrame
    by (cases "ftype f") simp_all
  then show ?thesis
    by (auto simp add: foldl_pushFrame_byEnergy filter_empty_conv)
qed

lemma sortFrames_low:
  "framesByEnergy (sortFrames fs) Low \<noteq> [] \<longleftrightarrow>
     (\<exists>f. f \<in> set fs \<and> ftype f = Body \<and> energy f = Low) \<or> (\<exists>f rest. fs = f # rest \<and> ftype f = Body)"
  unfolding sortFrames_def Let_def
  using collected_empty_iff [of fs Low]
  by (cases fs) auto

lemma sortFrames_mid:
  "framesByEnergy (sortFrames fs) Low \<noteq> [] \<Longrightarrow> framesByEnergy (sortFrames fs) Mid \<noteq> []"
  unfolding sortFrames_def Let_def
  by (cases fs) (auto split: if_splits)

lemma sortFrames_high:
  "framesByEnergy (sortFrames fs) Mid \<noteq> [] \<Longrightarrow> framesByEnergy (sortFrames fs) High \<noteq> []"
  unfolding sortFrames_def Let_def
  by (cases fs) (auto split: if_splits)

text \<open>
  Claim C5, as amended. After the pools are sorted with the fallback from low to mid to
  high, the three energy pools are all non-empty exactly when the frame list has a
  low-energy body frame or its first frame is a body frame.
\<close>

theorem pools_nonempty_iff:
  "(framesByEnergy (sortFrames fs) Low \<noteq> [] \<and> framesByEnergy (sortFrames fs) Mid \<noteq> [] \<and>
    framesByEnergy (sortFrames fs) High \<noteq> [])
   \<longleftrightarrow> (\<exists>f. f \<in> set fs \<and> ftype f = Body \<and> energy f = Low) \<or>
        (\<exists>f rest. fs = f # rest \<and> ftype f = Body)"
  using sortFrames_low [of fs] sortFrames_mid [of fs] sortFrames_high [of fs]
  by blast

theorem pools_nonempty_iff_witness:
  "framesByEnergy (sortFrames two_frames) Low \<noteq> [] \<and>
   framesByEnergy (sortFrames two_frames) Mid \<noteq> [] \<and>
   framesByEnergy (sortFrames two_frames) High \<noteq> []"
  using pools_nonempty_iff [of two_frames]
  by (simp add: two_frames_def)

text \<open>
  As stated, for every non-empty frame list, claim C5 fails: a list that holds one closeup
  leaves the low pool empty.
\<close>

theorem pools_counterexample:
  "[\<lparr> url = Str ''u'', pose = ''base_12'', energy = High, ftype = Closeup \<rparr>] \<noteq> [] \<and>
   framesByEnergy (sortFrames [\<lparr> url = Str ''u'', pose = ''base_12'', energy = High, ftype = Closeup \<rparr>]) Low = []"
  by (simp add: sortFrames_def pushFrame_def)

text \<open>
  Every list that \<^verbatim>\<open>generateDanceFrames\<close> returns starts with the low-energy body frame of
  cell 0 of the base sheet, so its pools are never empty.
\<close>

lemma generated_pools_nonempty:
  assumes "snd (generateDanceFrames env img st mo useTurbo superMode ec) = Resolved (allFrames, c)"
  shows "framesByEnergy (sortFrames (framesToLoad \<lparr> generatedFrames = allFrames,
            imagePreviewUrl = i, audioPreviewUrl = a \<rparr>)) e \<noteq> []"
proof -
  from generated_frames_start_with_body [OF assms] obtain f :: LoadFrame and rest where
    m: "map LoadFrame.truncate allFrames = f # rest" and b: "ftype f = Body"
    by (elim exE conjE)
  then have ne: "allFrames \<noteq> []" by auto
  have fl: "framesToLoad \<lparr> generatedFrames = allFrames, imagePreviewUrl = i, audioPreviewUrl = a \<rparr>
              = f # rest"
    using ne m by (simp add: framesToLoad_def)
  have "\<exists>f' rest'. f # rest = f' # rest' \<and> ftype f' = Body" using b by blast
  then have "framesByEnergy (sortFrames (f # rest)) Low \<noteq> [] \<and>
        framesByEnergy (sortFrames (f # rest)) Mid \<noteq> [] \<and>
        framesByEnergy (sortFrames (f # rest)) High \<noteq> []"
    using sortFrames_low [of "f # rest"] sortFrames_mid [of "f # rest"] sortFrames_high [of "f # rest"]
    by blast
  then show ?thesis unfolding fl by (cases e) simp_all
qed

subsection \<open>Audio\<close>

text \<open>
  In every state the audio engine can reach, playing implies that the analyser exists, so
  the branch of the fallback clock is never taken.
\<close>

lemma playing_has_analyser:
  "reachable s \<Longrightarrow> (audioCtxRef s \<longrightarrow> analyserRef s) \<and> (isPlaying s \<longrightarrow> audioCtxRef s)"
proof (induction rule: reachable.induct)
  case start
  then show ?case by (simp add: mounted_def)
next
  case (mic s ctor granted)
  then show ?case
    by (auto simp add: toggleMic_def initAudioContext_def split: option.splits if_splits)
next
  case (play s ctor audioUrl)
  then show ?case
    by (auto simp add: togglePlay_def initAudioContext_def split: option.splits if_splits)
next
  case (url s)
  then show ?case by (simp add: audioUrlChanged_def)
qed

lemma fallback_clock_unreachable:
  assumes "reachable s"
  shows "audioAnalysis s audioUrl t dataArray rnd =
           (if isPlaying s then analyserBands dataArray else \<lparr> bass = 0, mid = 0, high = 0 \<rparr>)"
  using playing_has_analyser [OF assms]
  by (auto simp add: audioAnalysis_def)

text \<open>The fallback clock itself computes the bass the specification describes, from the
  position within the beat.\<close>

lemma js_rem_frac:
  assumes "0 \<le> x" "0 < y"
  shows "js_rem x y / y = frac (x / y)"
proof -
  have "0 \<le> x / y" using assms by simp
  then have "js_rem x y = x - y * of_int \<lfloor>x / y\<rfloor>" by (simp add: js_rem_def)
  then show ?thesis using assms by (simp add: frac_def field_simps)
qed

lemma fallbackClock_formula:
  assumes "0 \<le> t"
  shows "bass (fallbackClock t r) = (max 0 (1 - frac (t / 1000 / (60 / 124)) * 4)) ^ 3"
proof -
  have h: "js_rem (t / 1000) (60 / 124) / (60 / 124) = frac (t / 1000 / (60 / 124))"
    using assms by (intro js_rem_frac) simp_all
  show ?thesis
    unfolding fallbackClock_def Let_def h by simp
qed

lemma silent_bands: "analyserBands (replicate 512 0) = \<lparr> bass = 0, mid = 0, high = 0 \<rparr>"
  by (simp add: analyserBands_def sliceSum_def)

lemma fallback_bass_at_30: "bass (fallbackClock 30 (1/2)) = 0.425259008"
  apply (simp add: fallbackClock_def js_rem_def Let_def power3_eq_cube)
  done

text \<open>
  Claim C6 says that a preview playing with neither an audio file nor the microphone takes
  its bands from the fallback clock. The code does not: \<^verbatim>\<open>togglePlay\<close> creates the
  analyser before it sets \<^verbatim>\<open>isPlaying\<close>, and \<^verbatim>\<open>animate\<close> asks for the analyser first.
  After the first press of play, with no file and no microphone, the tick at 30 ms reads
  the silent analyser and gets bass 0, where the clock would give
  \<open>(1 - 4 \<cdot> 0.062)\<^sup>3 = 0.425259008\<close>.
\<close>

theorem fallback_clock_shadowed:
  "isPlaying (togglePlay True None mounted) \<and> \<not> isMicActive (togglePlay True None mounted) \<and>
   bass (audioAnalysis (togglePlay True None mounted) None 30 (replicate 512 0) (1 / 2)) = 0 \<and>
   bass (fallbackClock 30 (1 / 2)) = 0.425259008"
  by (simp add: togglePlay_def initAudioContext_def mounted_def truthy_def audioAnalysis_def silent_bands fallback_bass_at_30)

subsection \<open>Choreography\<close>










































subsection \<open>Rendering\<close>

text \<open>
  Claim C8, as amended. When the pose map has no bitmap for the pose that \<^verbatim>\<open>renderFrame\<close> is
  given, the routine draws what it draws for the pose \<open>base\<close>: the passes of the bitmap
  stored under the key \<open>base\<close> when the map has one, and nothing when it has none or when
  the opacity is at most 0.01.
\<close>

theorem missing_pose_draws_base:
  assumes "poseImages p = None"
  shows "renderFrame cam shifts poseImages p opacity offsetX =
           renderFrame cam shifts poseImages ''base'' opacity offsetX \<and>
         renderFrame cam shifts poseImages p opacity offsetX =
           (if opacity \<le> 0.01 then []
            else case poseImages ''base'' of
                   None \<Rightarrow> []
                 | Some img \<Rightarrow> drawPasses cam shifts img opacity offsetX)"
  using assms by (simp add: renderFrame_def split: option.splits)

text \<open>The preview of an uploaded image before any generation: the one synthetic frame is
  named \<open>base\<close>, and its bitmap is drawn for a pose the map does not have.\<close>

lemma loaded_uploaded:
  "loadPoseImages studio (framesToLoad uploaded) =
     [''base'' \<mapsto> \<lparr> src = Str ''data:image/jpeg;base64,QUJD'', width = 1024, height = 1000 \<rparr>]"
  by (simp add: loadPoseImages_def framesToLoad_def uploaded_def studio_def)

theorem missing_pose_draws_base_witness:
  "loadPoseImages studio (framesToLoad uploaded) ''base_4_left'' = None \<and>
   renderFrame still steady (loadPoseImages studio (framesToLoad uploaded)) ''base_4_left'' 1 0 =
     [DrawImage \<lparr> src = Str ''data:image/jpeg;base64,QUJD'', width = 1024, height = 1000 \<rparr>
        ''source-over'' 1 200 300 400 (3125 / 8)]"
proof -
  have n: "loadPoseImages studio (framesToLoad uploaded) ''base_4_left'' = None"
    by (simp add: loaded_uploaded)
  have d: "drawPasses still steady
             \<lparr> src = Str ''data:image/jpeg;base64,QUJD'', width = 1024, height = 1000 \<rparr> 1 0 =
           [DrawImage \<lparr> src = Str ''data:image/jpeg;base64,QUJD'', width = 1024, height = 1000 \<rparr>
              ''source-over'' 1 200 300 400 (3125 / 8)]"
    by (simp add: drawPasses_def still_def Let_def)
  from missing_pose_draws_base [where poseImages = "loadPoseImages studio (framesToLoad uploaded)"
      and p = "''base_4_left''" and cam = still and shifts = steady and opacity = 1
      and offsetX = 0] n
  have "renderFrame still steady (loadPoseImages studio (framesToLoad uploaded)) ''base_4_left'' 1 0 =
          (if (1::real) \<le> 0.01 then []
           else case loadPoseImages studio (framesToLoad uploaded) ''base'' of
                  None \<Rightarrow> []
                | Some img \<Rightarrow> drawPasses still steady img 1 0)"
    by blast
  also have "\<dots> = [DrawImage \<lparr> src = Str ''data:image/jpeg;base64,QUJD'', width = 1024, height = 1000 \<rparr>
        ''source-over'' 1 200 300 400 (3125 / 8)]"
    using d by (simp add: loaded_uploaded)
  finally show ?thesis using n by simp
qed

text \<open>After a settled generation the pose map has nothing under the key \<open>base\<close>, whatever
  the browser loads: for a pose that is missing from the map, nothing is drawn.\<close>

lemma loadPoseImages_absent:
  assumes "\<forall>f\<in>set frames. pose f \<noteq> k"
  shows "loadPoseImages env frames k = None"
proof -
  have "foldl (\<lambda>newMap f.
              case decode env (url f) of
                None \<Rightarrow> newMap
              | Some (w, h) \<Rightarrow> newMap (pose f \<mapsto> \<lparr> src = url f, width = w, height = h \<rparr>))
           m frames k = m k" if "\<forall>f\<in>set frames. pose f \<noteq> k" for m
    using that by (induction frames arbitrary: m) (auto split: option.splits)
  from this [OF assms, of Map.empty] show ?thesis by (simp add: loadPoseImages_def)
qed

lemma generated_missing_pose_draws_nothing:
  assumes "snd (generateDanceFrames env img st mo useTurbo superMode ec) = Resolved (allFrames, c)"
    and "generatedFrames state = allFrames"
    and "loadPoseImages browser (framesToLoad state) p = None"
  shows "loadPoseImages browser (framesToLoad state) ''base'' = None"
    and "renderFrame cam shifts (loadPoseImages browser (framesToLoad state)) p opacity offsetX = []"
proof -
  from generated_frames_start_with_body [OF assms(1)] have "allFrames \<noteq> []" by auto
  with assms(2) have l: "framesToLoad state = map LoadFrame.truncate allFrames"
    by (simp add: framesToLoad_def)
  have "\<forall>f\<in>set (map LoadFrame.truncate allFrames). pose f \<noteq> ''base''"
    using generated_poses_not_base [OF assms(1)] by (simp add: LoadFrame.truncate_def)
  from loadPoseImages_absent [OF this, of browser]
  show b: "loadPoseImages browser (framesToLoad state) ''base'' = None" by (simp add: l)
  from assms(3) b
  show "renderFrame cam shifts (loadPoseImages browser (framesToLoad state)) p opacity offsetX = []"
    by (simp add: renderFrame_def)
qed

text \<open>
  As stated, claim C8 fails for the frames the service generates: the pose map has
  nothing under the fallback key. In the preview of
  \<open>generated\<close> on a browser where the image of \<open>base_4_left\<close> fails to load, the other
  frames are loaded, \<open>base_0\<close> among them, and \<^verbatim>\<open>renderFrame\<close> draws nothing for
  \<open>base_4_left\<close>.
\<close>

theorem missing_pose_counterexample:
  "loadPoseImages flaky (framesToLoad generated) ''base_4_left'' = None \<and>
   loadPoseImages flaky (framesToLoad generated) ''base'' = None \<and>
   loadPoseImages flaky (framesToLoad generated) ''base_0'' =
     Some \<lparr> src = CropJpeg (Str ''data:image/jpeg;base64,QUJD'') 32 20 210 210 210 210 0.95,
            width = 210, height = 210 \<rparr> \<and>
   renderFrame still steady (loadPoseImages flaky (framesToLoad generated)) ''base_4_left'' 1 0 = []"
  by (simp add: generated_frames loadPoseImages_def flaky_def studio_def renderFrame_def)

end
